theory Spec2Isabelle
  imports Complex_Main "HOL-Library.Word" "HOL-Library.Sublist"
begin

section \<open>JavaScript strings\<close>

text \<open>
  A JavaScript string is a sequence of UTF-16 code units. A code unit is modelled by its
  numeric value; ASCII literals of the source are written \<open>asc ''...''\<close>, and the
  Traditional Chinese literals are given by their code units.
\<close>

type_synonym jschar = nat
type_synonym jsstring = "jschar list"

definition asc :: "string \<Rightarrow> jsstring" where
  "asc s = map of_char s"

text \<open>
  The class \<open>\s\<close> of a JavaScript regular expression, which is also the set of code
  units that \<open>String.prototype.trim\<close> strips: WhiteSpace and LineTerminator.
\<close>

definition is_ws :: "jschar \<Rightarrow> bool" where
  "is_ws c \<longleftrightarrow>
     c = 0x09 \<or> c = 0x0A \<or> c = 0x0B \<or> c = 0x0C \<or> c = 0x0D \<or> c = 0x20 \<or> c = 0xA0 \<or>
     c = 0x1680 \<or> (0x2000 \<le> c \<and> c \<le> 0x200A) \<or> c = 0x2028 \<or> c = 0x2029 \<or>
     c = 0x202F \<or> c = 0x205F \<or> c = 0x3000 \<or> c = 0xFEFF"

definition trim_start :: "jsstring \<Rightarrow> jsstring" where
  "trim_start s = dropWhile is_ws s"

definition trim_end :: "jsstring \<Rightarrow> jsstring" where
  "trim_end s = rev (dropWhile is_ws (rev s))"

definition js_trim :: "jsstring \<Rightarrow> jsstring" where
  "js_trim s = trim_end (trim_start s)"

text \<open>\<open>Array.prototype.join\<close> on strings.\<close>

fun join :: "jsstring \<Rightarrow> jsstring list \<Rightarrow> jsstring" where
  "join sep [] = []"
| "join sep [x] = x"
| "join sep (x # y # ys) = x @ sep @ join sep (y # ys)"

text \<open>The decimal rendering of a non-negative integer inside a template literal.\<close>

fun decimal :: "nat \<Rightarrow> jsstring" where
  "decimal n = (if n < 10 then [48 + n] else decimal (n div 10) @ [48 + n mod 10])"

declare decimal.simps [simp del]

text \<open>
  Case-insensitive comparison of a code unit against an ASCII pattern character (flag
  \<open>i\<close>): both are canonicalised to upper case, and a code unit outside ASCII never
  canonicalises into ASCII.
\<close>

definition ascii_upper :: "jschar \<Rightarrow> jschar" where
  "ascii_upper c = (if 97 \<le> c \<and> c \<le> 122 then c - 32 else c)"

definition starts_with_ci :: "jsstring \<Rightarrow> jsstring \<Rightarrow> bool" where
  "starts_with_ci p s \<longleftrightarrow> prefix (map ascii_upper p) (map ascii_upper s)"

section \<open>The regular expressions of the service\<close>

definition FENCE :: jsstring where
  "FENCE = asc ''```''"

definition STARTUML :: jsstring where
  "STARTUML = asc ''@startuml''"

definition ENDUML :: jsstring where
  "ENDUML = asc ''@enduml''"

text \<open>
  The lazy group \<open>([\s\S]*?)\<close> followed by a literal \<open>p\<close>: the group grows one code
  unit at a time until \<open>p\<close> matches at the current position.
\<close>

fun lazy_until :: "jsstring \<Rightarrow> jsstring \<Rightarrow> jsstring option" where
  "lazy_until p [] = (if p = [] then Some [] else None)"
| "lazy_until p (c # cs) =
     (if prefix p (c # cs) then Some [] else map_option ((#) c) (lazy_until p cs))"

text \<open>
  \<open>text.match(/@startuml([\s\S]*?)@enduml/)\<close>: the matcher tries the start positions
  from left to right; at a position where \<open>@startuml\<close> matches it runs the lazy group,
  and moves to the next position when that fails. The result is capture group 1.
\<close>

fun match_startuml :: "jsstring \<Rightarrow> jsstring option" where
  "match_startuml [] = None"
| "match_startuml (c # cs) =
     (if prefix STARTUML (c # cs) then
        (case lazy_until ENDUML (drop (length STARTUML) (c # cs)) of
           Some g \<Rightarrow> Some g
         | None \<Rightarrow> match_startuml cs)
      else match_startuml cs)"

text \<open>\<open>.replace(/^```plantuml\s*/i, '')\<close>\<close>

definition replace_plantuml_fence :: "jsstring \<Rightarrow> jsstring" where
  "replace_plantuml_fence s =
     (if starts_with_ci (asc ''```plantuml'') s
      then dropWhile is_ws (drop (length (asc ''```plantuml'')) s) else s)"

text \<open>\<open>.replace(/^```\s*/, '')\<close>\<close>

definition replace_fence_start :: "jsstring \<Rightarrow> jsstring" where
  "replace_fence_start s =
     (if prefix FENCE s then dropWhile is_ws (drop (length FENCE) s) else s)"

text \<open>
  \<open>.replace(/```\s*$/, '')\<close>: the leftmost position at which a fence is followed by
  white space only up to the end of the string; everything from there on is removed.
\<close>

fun replace_fence_end :: "jsstring \<Rightarrow> jsstring" where
  "replace_fence_end [] = []"
| "replace_fence_end (c # cs) =
     (if prefix FENCE (c # cs) \<and> list_all is_ws (drop (length FENCE) (c # cs)) then []
      else c # replace_fence_end cs)"

text \<open>The tail \<open>\s*```\s*$\<close> of the two regular expressions of \<open>cleanMarkdown\<close>.\<close>

definition ws_fence_end :: "jsstring \<Rightarrow> bool" where
  "ws_fence_end s \<longleftrightarrow>
     (let t = dropWhile is_ws s
      in prefix FENCE t \<and> list_all is_ws (drop (length FENCE) t))"

text \<open>The lazy group of \<open>cleanMarkdown\<close>, followed by that tail.\<close>

fun lazy_until_fence_end :: "jsstring \<Rightarrow> jsstring option" where
  "lazy_until_fence_end [] = None"
| "lazy_until_fence_end (c # cs) =
     (if ws_fence_end (c # cs) then Some []
      else map_option ((#) c) (lazy_until_fence_end cs))"

text \<open>\<open>text.replace(/\s*```\s*$/, '')\<close>\<close>

fun replace_ws_fence_end :: "jsstring \<Rightarrow> jsstring" where
  "replace_ws_fence_end [] = []"
| "replace_ws_fence_end (c # cs) =
     (if ws_fence_end (c # cs) then [] else c # replace_ws_fence_end cs)"

text \<open>
  \<open>text.match(/^\s*```(?:markdown)?\s*([\s\S]*?)\s*```\s*$/i)\<close>, capture group 1. The
  greedy \<open>\s*\<close> before a fence can only succeed having consumed the whole run of white
  space; the optional \<open>markdown\<close> is tried first and given up when the rest fails.
\<close>

definition codeBlockMatch :: "jsstring \<Rightarrow> jsstring option" where
  "codeBlockMatch s =
     (let t1 = dropWhile is_ws s in
      if \<not> prefix FENCE t1 then None
      else
        let t2 = drop (length FENCE) t1 in
        (case (if starts_with_ci (asc ''markdown'') t2
               then lazy_until_fence_end (dropWhile is_ws (drop (length (asc ''markdown'')) t2))
               else None) of
           Some g \<Rightarrow> Some g
         | None \<Rightarrow> lazy_until_fence_end (dropWhile is_ws t2)))"

text \<open>\<open>text.replace(/^\s*```(?:markdown)?\s*/i, '')\<close>\<close>

definition replace_markdown_fence :: "jsstring \<Rightarrow> jsstring" where
  "replace_markdown_fence s =
     (let t1 = dropWhile is_ws s in
      if \<not> prefix FENCE t1 then s
      else
        let t2 = drop (length FENCE) t1 in
        dropWhile is_ws
          (if starts_with_ci (asc ''markdown'') t2 then drop (length (asc ''markdown'')) t2
           else t2))"

definition cleanMarkdown :: "jsstring \<Rightarrow> jsstring" where
  "cleanMarkdown s =
     (case codeBlockMatch s of
        Some g \<Rightarrow> js_trim g
      | None \<Rightarrow> js_trim (replace_ws_fence_end (replace_markdown_fence s)))"

text \<open>The post-processing of the raw reply in \<open>generatePlantUML\<close>.\<close>

definition extractPlantUML :: "jsstring \<Rightarrow> jsstring" where
  "extractPlantUML s =
     (case match_startuml s of
        Some g \<Rightarrow> STARTUML @ g @ ENDUML
      | None \<Rightarrow>
          js_trim (replace_fence_end (replace_fence_start (replace_plantuml_fence s))))"

section \<open>The data model\<close>

datatype Role = User | Model

record Message =
  role :: Role
  text_msg :: jsstring
  images :: "jsstring list option"

record ImageAttachment =
  mimeType :: jsstring
  "data" :: jsstring
  url :: jsstring

datatype AppState = Initial | Consulting | Generating | Finished
datatype ResultTab = PrdTab | DiagramTab
datatype ViewMode = ConsultantView | SddView
datatype SddMode = Comprehensive | Simplified | Specific | Interactive

text \<open>
  Errors are values: the \<open>Error\<close> thrown by \<open>ensureInitialized\<close>, the rejection of a
  call to the hosted model, the exception of \<open>btoa\<close> on a code unit above 255, and a failure
  of the compression library.
\<close>

datatype error = ApiKeyNotSet | CallRejected | InvalidCharacter | DeflateFailed

section \<open>The hosted model and the browser\<close>

text \<open>
  The two system instructions are fixed texts; a chat of the SDK is identified by the
  configuration it was created with.
\<close>

datatype Instruction = CONSULTANT_INSTRUCTION | ARCHITECT_INSTRUCTION

record Chat =
  chat_model :: jsstring
  systemInstruction :: Instruction
  temperature :: real

datatype Part = TextPart jsstring | InlineData jsstring jsstring

text \<open>
  A chat message is a string or a list of parts. The initial SDD message is one of four
  fixed templates with the PRD text interpolated; it is represented by the mode and that
  text.
\<close>

datatype ChatInput =
    MessageText jsstring
  | MessageParts "Part list"
  | SddInitialPrompt SddMode jsstring

text \<open>
  The prompts of \<open>generateContent\<close> are fixed templates too, with the target platform and
  the conversation history interpolated.
\<close>

datatype Prompt = PrdPrompt jsstring jsstring | PlantUmlPrompt jsstring jsstring

datatype request =
    ChatSendMessage Chat ChatInput
  | GenerateContent jsstring Prompt

text \<open>
  A call either rejects or resolves with a response whose \<open>text\<close> may be undefined.
\<close>

type_synonym reply = "error + jsstring option"

text \<open>
  The environment: the replies the hosted model gives to the successive calls, the
  requests sent so far, and the blocking alerts shown so far.
\<close>

record world =
  replies :: "nat \<Rightarrow> reply"
  sent :: "request list"
  alerts :: "jsstring list"

definition network_call :: "request \<Rightarrow> world \<Rightarrow> reply \<times> world" where
  "network_call rq w = (replies w (length (sent w)), w\<lparr>sent := sent w @ [rq]\<rparr>)"

definition alert :: "jsstring \<Rightarrow> world \<Rightarrow> world" where
  "alert msg w = w\<lparr>alerts := alerts w @ [msg]\<rparr>"

text \<open>\<open>response.text || ''\<close>\<close>

definition text_or_empty :: "jsstring option \<Rightarrow> jsstring" where
  "text_or_empty t = (case t of None \<Rightarrow> [] | Some s \<Rightarrow> s)"

text \<open>\<open>response.text || d\<close>: the empty string is falsy as well.\<close>

definition text_or :: "jsstring option \<Rightarrow> jsstring \<Rightarrow> jsstring" where
  "text_or t d = (case t of None \<Rightarrow> d | Some s \<Rightarrow> if s = [] then d else s)"

section \<open>GeminiService\<close>

record GeminiService =
  ai :: "jsstring option"

definition MODEL :: jsstring where
  "MODEL = asc ''gemini-2.5-flash''"

definition setApiKey :: "jsstring \<Rightarrow> GeminiService \<Rightarrow> GeminiService" where
  "setApiKey key svc = svc\<lparr>ai := Some key\<rparr>"

definition ensureInitialized :: "GeminiService \<Rightarrow> error + unit" where
  "ensureInitialized svc = (case ai svc of None \<Rightarrow> Inl ApiKeyNotSet | Some k \<Rightarrow> Inr ())"

definition createChat :: "GeminiService \<Rightarrow> error + Chat" where
  "createChat svc =
     (case ensureInitialized svc of
        Inl e \<Rightarrow> Inl e
      | Inr u \<Rightarrow>
          Inr \<lparr>chat_model = MODEL, systemInstruction = CONSULTANT_INSTRUCTION,
               temperature = 7 / 10\<rparr>)"

definition createSddChat :: "GeminiService \<Rightarrow> error + Chat" where
  "createSddChat svc =
     (case ensureInitialized svc of
        Inl e \<Rightarrow> Inl e
      | Inr u \<Rightarrow>
          Inr \<lparr>chat_model = MODEL, systemInstruction = ARCHITECT_INSTRUCTION,
               temperature = 1 / 2\<rparr>)"

definition generatePRD ::
  "GeminiService \<Rightarrow> jsstring \<Rightarrow> jsstring \<Rightarrow> world \<Rightarrow> (error + jsstring) \<times> world" where
  "generatePRD svc conversationHistory targetPlatform w =
     (case ensureInitialized svc of
        Inl e \<Rightarrow> (Inl e, w)
      | Inr u \<Rightarrow>
          (case network_call
                  (GenerateContent MODEL (PrdPrompt targetPlatform conversationHistory)) w of
             (Inl e, w') \<Rightarrow> (Inl e, w')
           | (Inr t, w') \<Rightarrow>
               (Inr (cleanMarkdown (text_or t (asc ''# Error Generating PRD''))), w')))"

definition generatePlantUML ::
  "GeminiService \<Rightarrow> jsstring \<Rightarrow> jsstring \<Rightarrow> world \<Rightarrow> (error + jsstring) \<times> world" where
  "generatePlantUML svc conversationHistory targetPlatform w =
     (case ensureInitialized svc of
        Inl e \<Rightarrow> (Inl e, w)
      | Inr u \<Rightarrow>
          (case network_call
                  (GenerateContent MODEL (PlantUmlPrompt targetPlatform conversationHistory)) w of
             (Inl e, w') \<Rightarrow> (Inl e, w')
           | (Inr t, w') \<Rightarrow> (Inr (extractPlantUML (text_or_empty t)), w')))"

definition getSddInitialPrompt :: "jsstring \<Rightarrow> SddMode \<Rightarrow> ChatInput" where
  "getSddInitialPrompt prdContent mode = SddInitialPrompt mode prdContent"

section \<open>AppComponent\<close>

text \<open>
  The signals and plain fields of the component, with the injected service. The view
  children (scroll containers, text areas) carry no state of the wizard and are left out,
  and with them \<open>resetInputHeight\<close> and \<open>resetSddInputHeight\<close>, which only restyle a
  text area; \<open>console.error\<close> only logs.
\<close>

record AppComponent =
  geminiService :: GeminiService
  apiKey :: jsstring
  isApiKeySet :: bool
  currentView :: ViewMode
  targetPlatform :: jsstring
  state :: AppState
  activeTab :: ResultTab
  generationStatus :: jsstring
  isCopied :: bool
  messages :: "Message list"
  userInput :: jsstring
  selectedImages :: "ImageAttachment list"
  isChatLoading :: bool
  chatInstance :: "Chat option"
  prdContent :: jsstring
  plantUmlCode :: jsstring
  zoomLevel :: real
  pan :: "real \<times> real"
  isDragging :: bool
  lastMousePosition :: "real \<times> real"
  sddInput :: jsstring
  sddMode :: SddMode
  sddResult :: jsstring
  isSddGenerating :: bool
  isSddCopied :: bool
  sddChatInstance :: "Chat option"
  sddMessages :: "Message list"
  sddReplyInput :: jsstring

text \<open>The component as its field initialisers leave it.\<close>

definition initialComponent :: AppComponent where
  "initialComponent =
     \<lparr>geminiService = \<lparr>ai = None\<rparr>, apiKey = [], isApiKeySet = False,
      currentView = ConsultantView, targetPlatform = asc ''Python'', state = Initial,
      activeTab = PrdTab, generationStatus = [], isCopied = False, messages = [],
      userInput = [], selectedImages = [], isChatLoading = False, chatInstance = None,
      prdContent = [], plantUmlCode = [], zoomLevel = 1, pan = (0, 0), isDragging = False,
      lastMousePosition = (0, 0), sddInput = [], sddMode = Simplified, sddResult = [],
      isSddGenerating = False, isSddCopied = False, sddChatInstance = None,
      sddMessages = [], sddReplyInput = []\<rparr>"

subsection \<open>The literals shown to the user\<close>

definition MSG_CONSULT_ERROR :: jsstring where
  "MSG_CONSULT_ERROR =
     [0x767C, 0x751F, 0x932F, 0x8AA4, 0xFF0C, 0x8ACB, 0x7A0D, 0x5F8C, 0x518D, 0x8A66, 0x3002]"

definition MSG_CONNECTION_ERROR :: jsstring where
  "MSG_CONNECTION_ERROR = [0x9023, 0x7DDA, 0x932F, 0x8AA4, 0x3002]"

definition MSG_SDD_CONNECTION_ERROR :: jsstring where
  "MSG_SDD_CONNECTION_ERROR =
     [0x9023, 0x7DDA, 0x932F, 0x8AA4, 0xFF0C, 0x8ACB, 0x91CD, 0x8A66, 0x3002]"

definition ALERT_GENERATION_FAILED :: jsstring where
  "ALERT_GENERATION_FAILED = [0x751F, 0x6210, 0x5931, 0x6557, 0xFF0C, 0x8ACB, 0x91CD, 0x8A66]"

definition ALERT_SDD_START_FAILED :: jsstring where
  "ALERT_SDD_START_FAILED = [0x5C0D, 0x8A71, 0x555F, 0x52D5, 0x5931, 0x6557]"

definition MSG_ANALYZE_IMAGES :: jsstring where
  "MSG_ANALYZE_IMAGES = [0x8ACB, 0x5206, 0x6790, 0x9019, 0x4E9B, 0x5716, 0x7247]"

definition STATUS_ANALYZING :: jsstring where
  "STATUS_ANALYZING =
     [0x6B63, 0x5728, 0x5206, 0x6790, 0x5C0D, 0x8A71, 0x7D00, 0x9304, 0x2E, 0x2E, 0x2E]"

definition STATUS_PRD :: jsstring where
  "STATUS_PRD =
     [0x6B65, 0x9A5F, 0x20, 0x31, 0x2F, 0x32, 0x3A, 0x20, 0x6B63, 0x5728, 0x64B0, 0x5BEB,
      0x7522, 0x54C1, 0x9700, 0x6C42, 0x6587, 0x4EF6, 0x20, 0x28, 0x50, 0x52, 0x44, 0x29,
      0x2E, 0x2E, 0x2E]"

definition STATUS_DIAGRAM :: jsstring where
  "STATUS_DIAGRAM =
     [0x6B65, 0x9A5F, 0x20, 0x32, 0x2F, 0x32, 0x3A, 0x20, 0x6B63, 0x5728, 0x7E6A, 0x88FD,
      0x7CFB, 0x7D71, 0x67B6, 0x69CB, 0x5716, 0x20, 0x28, 0x50, 0x6C, 0x61, 0x6E, 0x74,
      0x55, 0x4D, 0x4C, 0x29, 0x2E, 0x2E, 0x2E]"

definition STATUS_DONE :: jsstring where
  "STATUS_DONE =
     [0x5B8C, 0x6210, 0xFF01, 0x6B63, 0x5728, 0x6E96, 0x5099, 0x9810, 0x89BD, 0x2E, 0x2E, 0x2E]"

subsection \<open>API key\<close>

definition submitApiKey :: "AppComponent \<Rightarrow> AppComponent" where
  "submitApiKey a =
     (if js_trim (apiKey a) \<noteq> []
      then a\<lparr>geminiService := setApiKey (js_trim (apiKey a)) (geminiService a),
             isApiKeySet := True\<rparr>
      else a)"

subsection \<open>Chat\<close>

text \<open>
  An entry point returns the error its promise rejects with (\<open>None\<close> when it fulfils),
  the component and the environment.
\<close>

type_synonym outcome = "error option \<times> AppComponent \<times> world"

definition userMessage :: "jsstring \<Rightarrow> ImageAttachment list \<Rightarrow> Message" where
  "userMessage t imgs = \<lparr>role = User, text_msg = t, images = Some (map url imgs)\<rparr>"

definition modelMessage :: "jsstring \<Rightarrow> Message" where
  "modelMessage t = \<lparr>role = Model, text_msg = t, images = None\<rparr>"

definition inlineParts :: "ImageAttachment list \<Rightarrow> Part list" where
  "inlineParts imgs = map (\<lambda>img. InlineData (mimeType img) (data img)) imgs"

definition startConsultation :: "AppComponent \<Rightarrow> world \<Rightarrow> outcome" where
  "startConsultation a w =
     (if js_trim (userInput a) = [] \<and> length (selectedImages a) = 0 then (None, a, w)
      else
        let initialIdea = userInput a;
            imgs = selectedImages a;
            a1 = a\<lparr>state := Consulting\<rparr>;
            a2 = a1\<lparr>messages := messages a1 @ [userMessage initialIdea imgs]\<rparr>;
            a3 = a2\<lparr>userInput := [], selectedImages := [], isChatLoading := True\<rparr>
        in
          (case createChat (geminiService a3) of
             Inl e \<Rightarrow> (Some e, a3, w)
           | Inr chat \<Rightarrow>
               let a4 = a3\<lparr>chatInstance := Some chat\<rparr>;
                   msg = (if length imgs > 0
                          then MessageParts
                                 ((if initialIdea \<noteq> [] then [TextPart initialIdea]
                                   else [TextPart MSG_ANALYZE_IMAGES]) @ inlineParts imgs)
                          else MessageText initialIdea)
               in
                 (case network_call (ChatSendMessage chat msg) w of
                    (Inr t, w') \<Rightarrow>
                      (None,
                       a4\<lparr>messages := messages a4 @ [modelMessage (text_or_empty t)],
                          isChatLoading := False\<rparr>, w')
                  | (Inl e, w') \<Rightarrow>
                      (None,
                       a4\<lparr>messages := messages a4 @ [modelMessage MSG_CONSULT_ERROR],
                          isChatLoading := False\<rparr>, w'))))"

definition sendMessage :: "AppComponent \<Rightarrow> world \<Rightarrow> outcome" where
  "sendMessage a w =
     (if (js_trim (userInput a) = [] \<and> length (selectedImages a) = 0) \<or> chatInstance a = None
      then (None, a, w)
      else
        (case chatInstance a of
           None \<Rightarrow> (None, a, w)
         | Some chat \<Rightarrow>
            let txt = userInput a;
                imgs = selectedImages a;
                a1 = a\<lparr>messages := messages a @ [userMessage txt imgs]\<rparr>;
                a2 = a1\<lparr>userInput := [], selectedImages := [], isChatLoading := True\<rparr>;
                msg = (if length imgs > 0
                       then MessageParts
                              ((if txt \<noteq> [] then [TextPart txt] else []) @ inlineParts imgs)
                       else MessageText txt)
            in
              (case network_call (ChatSendMessage chat msg) w of
                 (Inr t, w') \<Rightarrow>
                   (None,
                    a2\<lparr>messages := messages a2 @ [modelMessage (text_or_empty t)],
                       isChatLoading := False\<rparr>, w')
               | (Inl e, w') \<Rightarrow>
                   (None,
                    a2\<lparr>messages := messages a2 @ [modelMessage MSG_CONNECTION_ERROR],
                       isChatLoading := False\<rparr>, w'))))"

subsection \<open>Attachments\<close>

text \<open>
  \<open>images.filter((_, i) => i !== index)\<close>: the callback sees each element with its
  position; \<open>index\<close> is any integer the caller passes.
\<close>

fun filter_index :: "(nat \<Rightarrow> bool) \<Rightarrow> nat \<Rightarrow> 'a list \<Rightarrow> 'a list" where
  "filter_index keep i [] = []"
| "filter_index keep i (x # xs) =
     (if keep i then x # filter_index keep (Suc i) xs else filter_index keep (Suc i) xs)"

definition removeImage :: "int \<Rightarrow> AppComponent \<Rightarrow> AppComponent" where
  "removeImage index a =
     a\<lparr>selectedImages := filter_index (\<lambda>i. int i \<noteq> index) 0 (selectedImages a)\<rparr>"

subsection \<open>Generation\<close>

text \<open>The transcript handed to the two generation prompts.\<close>

definition historyLine :: "Message \<Rightarrow> jsstring" where
  "historyLine m =
     (let content = (if role m = User then asc ''User'' else asc ''Consultant'') @ asc '': '' @
                    text_msg m
      in case images m of
           None \<Rightarrow> content
         | Some urls \<Rightarrow>
             if length urls > 0
             then content @ [0x0A] @ asc ''[User uploaded '' @ decimal (length urls) @
                  asc '' image(s)]''
             else content)"

definition compileHistory :: "Message list \<Rightarrow> jsstring" where
  "compileHistory ms = join [0x0A, 0x0A] (map historyLine ms)"

text \<open>The \<open>catch\<close> block of \<open>finishAndGenerate\<close>.\<close>

definition generationFailed :: "AppComponent \<Rightarrow> world \<Rightarrow> outcome" where
  "generationFailed a w = (None, a\<lparr>state := Consulting\<rparr>, alert ALERT_GENERATION_FAILED w)"

text \<open>
  The two timers of the \<open>try\<close> block always fire and change nothing but the time; they are
  not modelled.
\<close>

definition finishAndGenerate :: "AppComponent \<Rightarrow> world \<Rightarrow> outcome" where
  "finishAndGenerate a w =
     (let a1 = a\<lparr>state := Generating\<rparr>;
          history = compileHistory (messages a1);
          a2 = a1\<lparr>generationStatus := STATUS_ANALYZING\<rparr>;
          a3 = a2\<lparr>generationStatus := STATUS_PRD\<rparr>
      in
        (case generatePRD (geminiService a3) history (targetPlatform a3) w of
           (Inl e, w1) \<Rightarrow> generationFailed a3 w1
         | (Inr prd, w1) \<Rightarrow>
             let a4 = a3\<lparr>prdContent := prd\<rparr>;
                 a5 = a4\<lparr>generationStatus := STATUS_DIAGRAM\<rparr>
             in
               (case generatePlantUML (geminiService a5) history (targetPlatform a5) w1 of
                  (Inl e, w2) \<Rightarrow> generationFailed a5 w2
                | (Inr diagram, w2) \<Rightarrow>
                    let a6 = a5\<lparr>plantUmlCode := diagram\<rparr>;
                        a7 = a6\<lparr>generationStatus := STATUS_DONE\<rparr>
                    in (None, a7\<lparr>state := Finished\<rparr>, w2))))"

subsection \<open>Reset\<close>

definition resetZoom :: "AppComponent \<Rightarrow> AppComponent" where
  "resetZoom a = a\<lparr>zoomLevel := 1, pan := (0, 0)\<rparr>"

definition reset :: "AppComponent \<Rightarrow> AppComponent" where
  "reset a =
     resetZoom
       (a\<lparr>state := Initial, messages := [], prdContent := [], plantUmlCode := [],
          chatInstance := None, selectedImages := []\<rparr>)"

subsection \<open>SDD\<close>

definition generateSdd :: "AppComponent \<Rightarrow> world \<Rightarrow> outcome" where
  "generateSdd a w =
     (if js_trim (sddInput a) = [] then (None, a, w)
      else
        let a1 = a\<lparr>isSddGenerating := True\<rparr>;
            a2 = a1\<lparr>sddMessages := []\<rparr>
        in
          (case createSddChat (geminiService a2) of
             Inl e \<Rightarrow> (Some e, a2, w)
           | Inr chat \<Rightarrow>
               let a3 = a2\<lparr>sddChatInstance := Some chat\<rparr>;
                   prompt = getSddInitialPrompt (sddInput a3) (sddMode a3)
               in
                 (case network_call (ChatSendMessage chat prompt) w of
                    (Inr t, w') \<Rightarrow>
                      let txt = text_or_empty t;
                          a4 = a3\<lparr>sddMessages := sddMessages a3 @ [modelMessage txt]\<rparr>;
                          a5 = a4\<lparr>sddResult := cleanMarkdown txt\<rparr>
                      in (None, a5\<lparr>isSddGenerating := False\<rparr>, w')
                  | (Inl e, w') \<Rightarrow>
                      (None, a3\<lparr>isSddGenerating := False\<rparr>,
                       alert ALERT_SDD_START_FAILED w'))))"

definition sddUserMessage :: "jsstring \<Rightarrow> Message" where
  "sddUserMessage t = \<lparr>role = User, text_msg = t, images = None\<rparr>"

definition sendSddReply :: "AppComponent \<Rightarrow> world \<Rightarrow> outcome" where
  "sendSddReply a w =
     (if js_trim (sddReplyInput a) = [] \<or> sddChatInstance a = None then (None, a, w)
      else
        (case sddChatInstance a of
           None \<Rightarrow> (None, a, w)
         | Some chat \<Rightarrow>
             let txt = sddReplyInput a;
                 a1 = a\<lparr>sddReplyInput := []\<rparr>;
                 a2 = a1\<lparr>sddMessages := sddMessages a1 @ [sddUserMessage txt]\<rparr>;
                 a3 = a2\<lparr>isSddGenerating := True\<rparr>
             in
               (case network_call (ChatSendMessage chat (MessageText txt)) w of
                  (Inr t, w') \<Rightarrow>
                    let respText = text_or_empty t;
                        a4 = a3\<lparr>sddMessages := sddMessages a3 @ [modelMessage respText]\<rparr>;
                        a5 = a4\<lparr>sddResult := cleanMarkdown respText\<rparr>
                    in (None, a5\<lparr>isSddGenerating := False\<rparr>, w')
                | (Inl e, w') \<Rightarrow>
                    (None,
                     a3\<lparr>sddMessages := sddMessages a3 @
                                        [modelMessage MSG_SDD_CONNECTION_ERROR],
                        isSddGenerating := False\<rparr>, w'))))"

section \<open>The diagram URL\<close>

type_synonym byte = "8 word"

text \<open>
  \<open>new TextEncoder().encode(code)\<close>: the UTF-8 bytes of the string, a surrogate pair read
  as one code point and a lone surrogate replaced by U+FFFD.
\<close>

definition scalar :: "jschar \<Rightarrow> nat" where
  "scalar c = (if 0xD800 \<le> c \<and> c \<le> 0xDFFF then 0xFFFD else c)"

fun code_points :: "jsstring \<Rightarrow> nat list" where
  "code_points [] = []"
| "code_points [c] = [scalar c]"
| "code_points (c # d # cs) =
     (if 0xD800 \<le> c \<and> c \<le> 0xDBFF \<and> 0xDC00 \<le> d \<and> d \<le> 0xDFFF
      then (0x10000 + (c - 0xD800) * 0x400 + (d - 0xDC00)) # code_points cs
      else scalar c # code_points (d # cs))"

definition utf8 :: "nat \<Rightarrow> byte list" where
  "utf8 cp =
     (if cp < 0x80 then [of_nat cp]
      else if cp < 0x800 then [of_nat (0xC0 + cp div 0x40), of_nat (0x80 + cp mod 0x40)]
      else if cp < 0x10000 then
        [of_nat (0xE0 + cp div 0x1000), of_nat (0x80 + cp div 0x40 mod 0x40),
         of_nat (0x80 + cp mod 0x40)]
      else
        [of_nat (0xF0 + cp div 0x40000), of_nat (0x80 + cp div 0x1000 mod 0x40),
         of_nat (0x80 + cp div 0x40 mod 0x40), of_nat (0x80 + cp mod 0x40)])"

definition TextEncoder_encode :: "jsstring \<Rightarrow> byte list" where
  "TextEncoder_encode s = concat (map utf8 (code_points s))"

text \<open>
  The loop \<open>for (let i = 0; i < len; i++) binary += String.fromCharCode(compressed[i])\<close>.
  A read beyond the array gives \<open>undefined\<close>, which \<open>String.fromCharCode\<close> turns into
  the code unit 0.
\<close>

function binary_loop :: "byte list \<Rightarrow> nat \<Rightarrow> nat \<Rightarrow> jsstring \<Rightarrow> jsstring" where
  "binary_loop compressed i len binary =
     (if i < len
      then binary_loop compressed (Suc i) len
             (binary @ [if i < length compressed then unat (compressed ! i) else 0])
      else binary)"
  by pat_completeness auto
termination
  by (relation "measure (\<lambda>(compressed, i, len, binary). len - i)") auto

declare binary_loop.simps [simp del]

text \<open>
  \<open>btoa\<close>: Base64 with the standard alphabet and padding; a code unit above 255 makes it
  throw.
\<close>

definition BASE64_ALPHABET :: jsstring where
  "BASE64_ALPHABET = asc ''ABCDEFGHIJKLMNOPQRSTUVWXYZabcdefghijklmnopqrstuvwxyz0123456789+/''"

definition b64char :: "nat \<Rightarrow> jschar" where
  "b64char i = BASE64_ALPHABET ! i"

fun base64 :: "nat list \<Rightarrow> jsstring" where
  "base64 [] = []"
| "base64 [a] = [b64char (a div 4), b64char (a mod 4 * 16), 61, 61]"
| "base64 [a, b] =
     [b64char (a div 4), b64char (a mod 4 * 16 + b div 16), b64char (b mod 16 * 4), 61]"
| "base64 (a # b # c # rest) =
     [b64char (a div 4), b64char (a mod 4 * 16 + b div 16),
      b64char (b mod 16 * 4 + c div 64), b64char (c mod 64)] @ base64 rest"

definition btoa :: "jsstring \<Rightarrow> error + jsstring" where
  "btoa s = (if list_ex (\<lambda>c. 255 < c) s then Inl InvalidCharacter else Inr (base64 s))"

text \<open>\<open>.replace(/x/g, y)\<close> for a single code unit \<open>x\<close>.\<close>

definition replace_all :: "jschar \<Rightarrow> jschar \<Rightarrow> jsstring \<Rightarrow> jsstring" where
  "replace_all x y s = map (\<lambda>c. if c = x then y else c) s"

definition KROKI_SVG :: jsstring where
  "KROKI_SVG = asc ''https://kroki.io/plantuml/svg/''"

text \<open>
  The body of the \<open>try\<close> block. \<open>pako.deflate(data, {level: 9})\<close> belongs to a library
  outside the repository and is a parameter; it may throw.
\<close>

definition encodeDiagram :: "(byte list \<Rightarrow> error + byte list) \<Rightarrow> jsstring \<Rightarrow> error + jsstring" where
  "encodeDiagram deflate code =
     (let bytes = TextEncoder_encode code in
      case deflate bytes of
        Inl e \<Rightarrow> Inl e
      | Inr compressed \<Rightarrow>
          let binary = binary_loop compressed 0 (length compressed) [] in
          (case btoa binary of
             Inl e \<Rightarrow> Inl e
           | Inr b \<Rightarrow> Inr (KROKI_SVG @ replace_all 47 95 (replace_all 43 45 b))))"

definition diagramUrl :: "(byte list \<Rightarrow> error + byte list) \<Rightarrow> AppComponent \<Rightarrow> jsstring" where
  "diagramUrl deflate a =
     (let code = plantUmlCode a in
      if code = [] then []
      else (case encodeDiagram deflate code of Inl e \<Rightarrow> [] | Inr u \<Rightarrow> u))"

text \<open>
  The specification's \<open>toDiagramURL\<close>, in its own words: encode as bytes, compress, Base64
  with \<open>+\<close> replaced by \<open>-\<close> and \<open>/\<close> by \<open>_\<close>, appended to the viewer endpoint; empty for
  empty input or when encoding fails.
\<close>

definition url_safe :: "jschar \<Rightarrow> jschar" where
  "url_safe c = (if c = 43 then 45 else if c = 47 then 95 else c)"

definition toDiagramURL_spec :: "(byte list \<Rightarrow> error + byte list) \<Rightarrow> jsstring \<Rightarrow> jsstring" where
  "toDiagramURL_spec deflate src =
     (if src = [] then []
      else case deflate (TextEncoder_encode src) of
             Inl e \<Rightarrow> []
           | Inr z \<Rightarrow> KROKI_SVG @ map url_safe (base64 (map unat z)))"

section \<open>Runs and sample values\<close>

definition rejection_of :: "outcome \<Rightarrow> error option" where
  "rejection_of r = fst r"

definition component_of :: "outcome \<Rightarrow> AppComponent" where
  "component_of r = fst (snd r)"

definition world_of :: "outcome \<Rightarrow> world" where
  "world_of r = snd (snd r)"

text \<open>
  A send: the user types a text and attaches images, then triggers the entry point. The
  first send of a session goes through \<open>startConsultation\<close>, the later ones through
  \<open>sendMessage\<close>.
\<close>

record send =
  send_text :: jsstring
  send_images :: "ImageAttachment list"

definition compose :: "send \<Rightarrow> AppComponent \<Rightarrow> AppComponent" where
  "compose s a = a\<lparr>userInput := send_text s, selectedImages := send_images s\<rparr>"

definition passes_guard :: "send \<Rightarrow> bool" where
  "passes_guard s \<longleftrightarrow> js_trim (send_text s) \<noteq> [] \<or> send_images s \<noteq> []"

fun sendAll :: "send list \<Rightarrow> AppComponent \<Rightarrow> world \<Rightarrow> AppComponent \<times> world" where
  "sendAll [] a w = (a, w)"
| "sendAll (s # ss) a w =
     (let r = sendMessage (compose s a) w in sendAll ss (component_of r) (world_of r))"

definition session :: "send list \<Rightarrow> AppComponent \<Rightarrow> world \<Rightarrow> AppComponent \<times> world" where
  "session sends a w =
     (case sends of
        [] \<Rightarrow> (a, w)
      | s # ss \<Rightarrow>
          let r = startConsultation (compose s a) w in sendAll ss (component_of r) (world_of r))"

text \<open>The calls of a run of \<open>n\<close> sends all resolve.\<close>

definition all_resolve :: "world \<Rightarrow> nat \<Rightarrow> bool" where
  "all_resolve w n \<longleftrightarrow> list_all (\<lambda>k. \<not> isl (replies w (length (sent w) + k))) [0..<n]"

text \<open>An environment that answers the successive calls from a list and rejects afterwards.\<close>

definition scripted :: "reply list \<Rightarrow> world" where
  "scripted rs =
     \<lparr>replies = (\<lambda>n. if n < length rs then rs ! n else Inl CallRejected), sent = [],
      alerts = []\<rparr>"

definition SAMPLE_PNG :: ImageAttachment where
  "SAMPLE_PNG =
     \<lparr>mimeType = asc ''image/png'', data = asc ''iVBORw0KGgo='',
      url = asc ''data:image/png;base64,iVBORw0KGgo=''\<rparr>"

definition SAMPLE_JPEG :: ImageAttachment where
  "SAMPLE_JPEG =
     \<lparr>mimeType = asc ''image/jpeg'', data = asc ''/9j/4AAQ'',
      url = asc ''data:image/jpeg;base64,/9j/4AAQ''\<rparr>"

definition SAMPLE_GIF :: ImageAttachment where
  "SAMPLE_GIF =
     \<lparr>mimeType = asc ''image/gif'', data = asc ''R0lGODlh'',
      url = asc ''data:image/gif;base64,R0lGODlh''\<rparr>"

definition SAMPLE_CHAT :: Chat where
  "SAMPLE_CHAT =
     \<lparr>chat_model = MODEL, systemInstruction = CONSULTANT_INSTRUCTION, temperature = 7 / 10\<rparr>"

text \<open>A component with the key submitted, and one in the middle of a consultation.\<close>

definition SAMPLE_READY :: AppComponent where
  "SAMPLE_READY = submitApiKey (initialComponent\<lparr>apiKey := asc ''key''\<rparr>)"

definition SAMPLE_CONSULTING :: AppComponent where
  "SAMPLE_CONSULTING =
     SAMPLE_READY
       \<lparr>state := Consulting,
        messages := [userMessage (asc ''idea'') [], modelMessage (asc ''Who is it for?'')],
        chatInstance := Some SAMPLE_CHAT\<rparr>"

definition SAMPLE_FINISHED :: AppComponent where
  "SAMPLE_FINISHED =
     SAMPLE_CONSULTING
       \<lparr>state := Finished, activeTab := DiagramTab, generationStatus := STATUS_DONE,
        selectedImages := [SAMPLE_JPEG], prdContent := asc ''# PRD'',
        plantUmlCode := asc ''@startuml A -> B @enduml'', zoomLevel := 2, pan := (10, - 4),
        sddResult := asc ''# SDD''\<rparr>"

text \<open>
  The history a session is expected to hold after a run of sends whose calls all resolve:
  for each send the user's message, then the assistant's reply to it.
\<close>

fun expected_history :: "send list \<Rightarrow> (nat \<Rightarrow> reply) \<Rightarrow> nat \<Rightarrow> Message list" where
  "expected_history [] rp k = []"
| "expected_history (s # ss) rp k =
     [userMessage (send_text s) (send_images s),
      modelMessage (text_or_empty (projr (rp k)))] @ expected_history ss rp (Suc k)"

definition SAMPLE_SENDS :: "send list" where
  "SAMPLE_SENDS =
     [\<lparr>send_text = asc ''a budgeting app'', send_images = []\<rparr>,
      \<lparr>send_text = [], send_images = [SAMPLE_PNG]\<rparr>,
      \<lparr>send_text = asc ''for students'', send_images = []\<rparr>]"

text \<open>An environment in which the PRD call resolves and the diagram call rejects.\<close>

definition SAMPLE_DIAGRAM_FAILS :: world where
  "SAMPLE_DIAGRAM_FAILS = scripted [Inr (Some (asc ''# PRD'')), Inl CallRejected]"

text \<open>
  Two stand-ins for the compression codec: one that stores the bytes as they are, and one
  that throws.
\<close>

definition SAMPLE_STORE :: "byte list \<Rightarrow> error + byte list" where
  "SAMPLE_STORE bytes = Inr bytes"

definition SAMPLE_BROKEN :: "byte list \<Rightarrow> error + byte list" where
  "SAMPLE_BROKEN bytes = Inl DeflateFailed"

text \<open>An environment in which both generation calls resolve.\<close>

definition SAMPLE_BOTH_RESOLVE :: world where
  "SAMPLE_BOTH_RESOLVE =
     scripted [Inr (Some (asc ''# PRD'')), Inr (Some (asc ''@startuml A -> B @enduml''))]"

section \<open>Auxiliary facts\<close>

lemmas outcome_defs = rejection_of_def component_of_def world_of_def

lemmas trim_defs = js_trim_def trim_start_def trim_end_def is_ws_def

lemma SAMPLE_READY_eq:
  "SAMPLE_READY =
     initialComponent\<lparr>geminiService := \<lparr>ai = Some (asc ''key'')\<rparr>, apiKey := asc ''key'',
                       isApiKeySet := True\<rparr>"
  by (simp add: SAMPLE_READY_def submitApiKey_def setApiKey_def initialComponent_def trim_defs
      asc_def)

lemma cleanMarkdown_sample: "cleanMarkdown (asc ''# PRD'') = asc ''# PRD''"
  by (simp add: cleanMarkdown_def codeBlockMatch_def replace_markdown_fence_def ws_fence_end_def
      FENCE_def trim_defs asc_def Let_def)

lemma generatePRD_cases:
  "generatePRD svc h p w =
     (if ai svc = None then (Inl ApiKeyNotSet, w)
      else case replies w (length (sent w)) of
             Inl e \<Rightarrow> (Inl e, w\<lparr>sent := sent w @ [GenerateContent MODEL (PrdPrompt p h)]\<rparr>)
           | Inr t \<Rightarrow>
               (Inr (cleanMarkdown (text_or t (asc ''# Error Generating PRD''))),
                w\<lparr>sent := sent w @ [GenerateContent MODEL (PrdPrompt p h)]\<rparr>))"
  by (auto simp: generatePRD_def ensureInitialized_def network_call_def split: sum.splits option.splits)

lemma generatePlantUML_cases:
  "generatePlantUML svc h p w =
     (if ai svc = None then (Inl ApiKeyNotSet, w)
      else case replies w (length (sent w)) of
             Inl e \<Rightarrow> (Inl e, w\<lparr>sent := sent w @ [GenerateContent MODEL (PlantUmlPrompt p h)]\<rparr>)
           | Inr t \<Rightarrow>
               (Inr (extractPlantUML (text_or_empty t)),
                w\<lparr>sent := sent w @ [GenerateContent MODEL (PlantUmlPrompt p h)]\<rparr>))"
  by (auto simp: generatePlantUML_def ensureInitialized_def network_call_def split: sum.splits option.splits)

lemma generatePRD_alerts: "alerts (snd (generatePRD svc h p w)) = alerts w"
  by (simp add: generatePRD_cases split: sum.splits)

lemma generatePlantUML_alerts: "alerts (snd (generatePlantUML svc h p w)) = alerts w"
  by (simp add: generatePlantUML_cases split: sum.splits)

section \<open>Generation failures\<close>

lemma finishAndGenerate_first_fails:
  assumes "generatePRD (geminiService a) (compileHistory (messages a)) (targetPlatform a) w =
             (Inl e, w1)"
  shows "finishAndGenerate a w =
           (None, a\<lparr>state := Consulting, generationStatus := STATUS_PRD\<rparr>,
            alert ALERT_GENERATION_FAILED w1)"
  using assms by (simp add: finishAndGenerate_def generationFailed_def Let_def)

lemma finishAndGenerate_second_fails:
  assumes "generatePRD (geminiService a) (compileHistory (messages a)) (targetPlatform a) w =
             (Inr prd, w1)"
    and "generatePlantUML (geminiService a) (compileHistory (messages a)) (targetPlatform a) w1 =
           (Inl e, w2)"
  shows "finishAndGenerate a w =
           (None, a\<lparr>state := Consulting, generationStatus := STATUS_DIAGRAM,
                     prdContent := prd\<rparr>,
            alert ALERT_GENERATION_FAILED w2)"
  using assms by (simp add: finishAndGenerate_def generationFailed_def Let_def)

lemma sample_prd_call:
  "generatePRD (geminiService SAMPLE_CONSULTING) (compileHistory (messages SAMPLE_CONSULTING))
     (targetPlatform SAMPLE_CONSULTING) SAMPLE_DIAGRAM_FAILS =
   (Inr (asc ''# PRD''),
    SAMPLE_DIAGRAM_FAILS
      \<lparr>sent := [GenerateContent MODEL
                  (PrdPrompt (targetPlatform SAMPLE_CONSULTING)
                     (compileHistory (messages SAMPLE_CONSULTING)))]\<rparr>)"
proof -
  have "ai (geminiService SAMPLE_CONSULTING) \<noteq> None"
    by (simp add: SAMPLE_CONSULTING_def SAMPLE_READY_eq)
  moreover have "replies SAMPLE_DIAGRAM_FAILS (length (sent SAMPLE_DIAGRAM_FAILS)) =
                   Inr (Some (asc ''# PRD''))"
    by (simp add: SAMPLE_DIAGRAM_FAILS_def scripted_def)
  moreover have "sent SAMPLE_DIAGRAM_FAILS = []"
    by (simp add: SAMPLE_DIAGRAM_FAILS_def scripted_def)
  moreover have "text_or (Some (asc ''# PRD'')) (asc ''# Error Generating PRD'') = asc ''# PRD''"
    by (simp add: text_or_def asc_def)
  ultimately show ?thesis
    by (simp add: generatePRD_cases cleanMarkdown_sample)
qed

lemma sample_diagram_call:
  "fst (generatePlantUML (geminiService SAMPLE_CONSULTING)
          (compileHistory (messages SAMPLE_CONSULTING)) (targetPlatform SAMPLE_CONSULTING)
          (SAMPLE_DIAGRAM_FAILS
             \<lparr>sent := [GenerateContent MODEL
                         (PrdPrompt (targetPlatform SAMPLE_CONSULTING)
                            (compileHistory (messages SAMPLE_CONSULTING)))]\<rparr>)) =
   Inl CallRejected"
proof -
  have "ai (geminiService SAMPLE_CONSULTING) \<noteq> None"
    by (simp add: SAMPLE_CONSULTING_def SAMPLE_READY_eq)
  then show ?thesis
    by (simp add: generatePlantUML_cases SAMPLE_DIAGRAM_FAILS_def scripted_def)
qed

text \<open>
  Claim C1, as amended. When the PRD call or the diagram call of \<open>finishAndGenerate\<close> fails
  (by rejection, or for want of a key), the operation stops there: no request is sent
  after the failing one, the promise still fulfils, the phase is set to \<open>consulting\<close>, the
  failure alert is shown, and the diagram code keeps the value it had before the operation.
  When the PRD call fails the PRD content is unchanged too and the diagram request is never
  sent; when only the diagram call fails, the PRD content holds the PRD that was just
  generated. Apart from the phase, the status line and, in the second case, the PRD
  content, the component is as it was.
\<close>

theorem finishAndGenerate_failure:
  "(fst (generatePRD (geminiService a) (compileHistory (messages a)) (targetPlatform a) w) = Inl e
      \<longrightarrow>
      rejection_of (finishAndGenerate a w) = None \<and>
      state (component_of (finishAndGenerate a w)) = Consulting \<and>
      alerts (world_of (finishAndGenerate a w)) = alerts w @ [ALERT_GENERATION_FAILED] \<and>
      prdContent (component_of (finishAndGenerate a w)) = prdContent a \<and>
      plantUmlCode (component_of (finishAndGenerate a w)) = plantUmlCode a \<and>
      component_of (finishAndGenerate a w) =
        a\<lparr>state := Consulting, generationStatus := STATUS_PRD\<rparr> \<and>
      sent (world_of (finishAndGenerate a w)) =
        (if ai (geminiService a) = None then sent w
         else sent w @
              [GenerateContent MODEL
                 (PrdPrompt (targetPlatform a) (compileHistory (messages a)))])) \<and>
   (generatePRD (geminiService a) (compileHistory (messages a)) (targetPlatform a) w =
      (Inr prd, w1) \<and>
    fst (generatePlantUML (geminiService a) (compileHistory (messages a)) (targetPlatform a) w1) =
      Inl e
      \<longrightarrow>
      rejection_of (finishAndGenerate a w) = None \<and>
      state (component_of (finishAndGenerate a w)) = Consulting \<and>
      alerts (world_of (finishAndGenerate a w)) = alerts w @ [ALERT_GENERATION_FAILED] \<and>
      prdContent (component_of (finishAndGenerate a w)) = prd \<and>
      plantUmlCode (component_of (finishAndGenerate a w)) = plantUmlCode a \<and>
      component_of (finishAndGenerate a w) =
        a\<lparr>state := Consulting, generationStatus := STATUS_DIAGRAM, prdContent := prd\<rparr> \<and>
      sent (world_of (finishAndGenerate a w)) =
        sent w @
        [GenerateContent MODEL (PrdPrompt (targetPlatform a) (compileHistory (messages a))),
         GenerateContent MODEL
           (PlantUmlPrompt (targetPlatform a) (compileHistory (messages a)))]) \<and>
   (ai (geminiService a) \<noteq> None \<and> replies w (length (sent w)) = Inr t \<and>
    replies w (Suc (length (sent w))) = Inl e
      \<longrightarrow>
      component_of (finishAndGenerate a w) =
        a\<lparr>state := Consulting, generationStatus := STATUS_DIAGRAM,
          prdContent := cleanMarkdown (text_or t (asc ''# Error Generating PRD''))\<rparr> \<and>
      alerts (world_of (finishAndGenerate a w)) = alerts w @ [ALERT_GENERATION_FAILED] \<and>
      length (sent (world_of (finishAndGenerate a w))) = length (sent w) + 2) \<and>
   (ai (geminiService a) \<noteq> None \<and> replies w (length (sent w)) = Inl e
      \<longrightarrow>
      component_of (finishAndGenerate a w) =
        a\<lparr>state := Consulting, generationStatus := STATUS_PRD\<rparr> \<and>
      alerts (world_of (finishAndGenerate a w)) = alerts w @ [ALERT_GENERATION_FAILED] \<and>
      length (sent (world_of (finishAndGenerate a w))) = length (sent w) + 1)"
proof (intro conjI impI)
  let ?h = "compileHistory (messages a)"
  assume f: "fst (generatePRD (geminiService a) ?h (targetPlatform a) w) = Inl e"
  then obtain w1 where g: "generatePRD (geminiService a) ?h (targetPlatform a) w = (Inl e, w1)"
    by (cases "generatePRD (geminiService a) ?h (targetPlatform a) w") simp
  have al: "alerts w1 = alerts w"
    using generatePRD_alerts [of "geminiService a" ?h "targetPlatform a" w] g by simp
  have se: "sent w1 =
              (if ai (geminiService a) = None then sent w
               else sent w @ [GenerateContent MODEL (PrdPrompt (targetPlatform a) ?h)])"
    using g by (auto simp: generatePRD_cases split: if_splits sum.splits)
  have r: "finishAndGenerate a w =
             (None, a\<lparr>state := Consulting, generationStatus := STATUS_PRD\<rparr>,
              alert ALERT_GENERATION_FAILED w1)"
    using g by (rule finishAndGenerate_first_fails)
  show "rejection_of (finishAndGenerate a w) = None"
    and "state (component_of (finishAndGenerate a w)) = Consulting"
    and "alerts (world_of (finishAndGenerate a w)) = alerts w @ [ALERT_GENERATION_FAILED]"
    and "prdContent (component_of (finishAndGenerate a w)) = prdContent a"
    and "plantUmlCode (component_of (finishAndGenerate a w)) = plantUmlCode a"
    and "component_of (finishAndGenerate a w) =
           a\<lparr>state := Consulting, generationStatus := STATUS_PRD\<rparr>"
    by (simp_all add: r outcome_defs alert_def al)
  show "sent (world_of (finishAndGenerate a w)) =
          (if ai (geminiService a) = None then sent w
           else sent w @ [GenerateContent MODEL (PrdPrompt (targetPlatform a) ?h)])"
    by (simp add: r outcome_defs alert_def se)
next
  let ?h = "compileHistory (messages a)"
  assume "generatePRD (geminiService a) ?h (targetPlatform a) w = (Inr prd, w1) \<and>
          fst (generatePlantUML (geminiService a) ?h (targetPlatform a) w1) = Inl e"
  then have g: "generatePRD (geminiService a) ?h (targetPlatform a) w = (Inr prd, w1)"
    and f: "fst (generatePlantUML (geminiService a) ?h (targetPlatform a) w1) = Inl e"
    by simp_all
  from f obtain w2 where
    d: "generatePlantUML (geminiService a) ?h (targetPlatform a) w1 = (Inl e, w2)"
    by (cases "generatePlantUML (geminiService a) ?h (targetPlatform a) w1") simp
  have al: "alerts w2 = alerts w"
    using generatePlantUML_alerts [of "geminiService a" ?h "targetPlatform a" w1] d
      generatePRD_alerts [of "geminiService a" ?h "targetPlatform a" w] g by simp
  from g have key: "ai (geminiService a) \<noteq> None"
    and s1: "sent w1 = sent w @ [GenerateContent MODEL (PrdPrompt (targetPlatform a) ?h)]"
    by (auto simp: generatePRD_cases split: if_splits sum.splits)
  from d key have
    s2: "sent w2 = sent w1 @ [GenerateContent MODEL (PlantUmlPrompt (targetPlatform a) ?h)]"
    by (auto simp: generatePlantUML_cases split: if_splits sum.splits)
  have r: "finishAndGenerate a w =
             (None, a\<lparr>state := Consulting, generationStatus := STATUS_DIAGRAM,
                       prdContent := prd\<rparr>,
              alert ALERT_GENERATION_FAILED w2)"
    using g d by (rule finishAndGenerate_second_fails)
  show "rejection_of (finishAndGenerate a w) = None"
    and "state (component_of (finishAndGenerate a w)) = Consulting"
    and "alerts (world_of (finishAndGenerate a w)) = alerts w @ [ALERT_GENERATION_FAILED]"
    and "prdContent (component_of (finishAndGenerate a w)) = prd"
    and "plantUmlCode (component_of (finishAndGenerate a w)) = plantUmlCode a"
    and "component_of (finishAndGenerate a w) =
           a\<lparr>state := Consulting, generationStatus := STATUS_DIAGRAM, prdContent := prd\<rparr>"
    by (simp_all add: r outcome_defs alert_def al)
  show "sent (world_of (finishAndGenerate a w)) =
          sent w @
          [GenerateContent MODEL (PrdPrompt (targetPlatform a) ?h),
           GenerateContent MODEL (PlantUmlPrompt (targetPlatform a) ?h)]"
    by (simp add: r outcome_defs alert_def s1 s2)
next
  let ?h = "compileHistory (messages a)"
  let ?w1 = "w\<lparr>sent := sent w @ [GenerateContent MODEL (PrdPrompt (targetPlatform a) ?h)]\<rparr>"
  let ?w2 = "?w1\<lparr>sent := sent ?w1 @
                        [GenerateContent MODEL (PlantUmlPrompt (targetPlatform a) ?h)]\<rparr>"
  assume h: "ai (geminiService a) \<noteq> None \<and> replies w (length (sent w)) = Inr t \<and>
             replies w (Suc (length (sent w))) = Inl e"
  then have key: "ai (geminiService a) \<noteq> None"
    and r1: "replies w (length (sent w)) = Inr t"
    and r2: "replies w (Suc (length (sent w))) = Inl e"
    by blast+
  have g: "generatePRD (geminiService a) ?h (targetPlatform a) w =
             (Inr (cleanMarkdown (text_or t (asc ''# Error Generating PRD''))), ?w1)"
    by (simp add: generatePRD_cases r1 key)
  have d: "generatePlantUML (geminiService a) ?h (targetPlatform a) ?w1 = (Inl e, ?w2)"
    by (simp add: generatePlantUML_cases r2 key)
  note r = finishAndGenerate_second_fails [OF g d]
  show "component_of (finishAndGenerate a w) =
          a\<lparr>state := Consulting, generationStatus := STATUS_DIAGRAM,
            prdContent := cleanMarkdown (text_or t (asc ''# Error Generating PRD''))\<rparr>"
    and "alerts (world_of (finishAndGenerate a w)) = alerts w @ [ALERT_GENERATION_FAILED]"
    and "length (sent (world_of (finishAndGenerate a w))) = length (sent w) + 2"
    by (simp_all add: r outcome_defs alert_def)
next
  let ?h = "compileHistory (messages a)"
  let ?w1 = "w\<lparr>sent := sent w @ [GenerateContent MODEL (PrdPrompt (targetPlatform a) ?h)]\<rparr>"
  assume h: "ai (geminiService a) \<noteq> None \<and> replies w (length (sent w)) = Inl e"
  then have key: "ai (geminiService a) \<noteq> None"
    and r1: "replies w (length (sent w)) = Inl e"
    by blast+
  have g: "generatePRD (geminiService a) ?h (targetPlatform a) w = (Inl e, ?w1)"
    by (simp add: generatePRD_cases r1 key)
  note r = finishAndGenerate_first_fails [OF g]
  show "component_of (finishAndGenerate a w) =
          a\<lparr>state := Consulting, generationStatus := STATUS_PRD\<rparr>"
    and "alerts (world_of (finishAndGenerate a w)) = alerts w @ [ALERT_GENERATION_FAILED]"
    and "length (sent (world_of (finishAndGenerate a w))) = length (sent w) + 1"
    by (simp_all add: r outcome_defs alert_def)
qed

theorem finishAndGenerate_failure_witness:
  "state (component_of (finishAndGenerate SAMPLE_CONSULTING SAMPLE_DIAGRAM_FAILS)) = Consulting \<and>
   alerts (world_of (finishAndGenerate SAMPLE_CONSULTING SAMPLE_DIAGRAM_FAILS)) =
     [ALERT_GENERATION_FAILED] \<and>
   plantUmlCode (component_of (finishAndGenerate SAMPLE_CONSULTING SAMPLE_DIAGRAM_FAILS)) = [] \<and>
   state (component_of (finishAndGenerate SAMPLE_CONSULTING (scripted [Inl CallRejected]))) =
     Consulting \<and>
   alerts (world_of (finishAndGenerate SAMPLE_CONSULTING (scripted [Inl CallRejected]))) =
     [ALERT_GENERATION_FAILED] \<and>
   prdContent (component_of (finishAndGenerate SAMPLE_CONSULTING (scripted [Inl CallRejected]))) =
     [] \<and>
   plantUmlCode (component_of (finishAndGenerate SAMPLE_CONSULTING (scripted [Inl CallRejected]))) =
     [] \<and>
   length (sent (world_of (finishAndGenerate SAMPLE_CONSULTING (scripted [Inl CallRejected])))) =
     1"
proof -
  have before: "prdContent SAMPLE_CONSULTING = []" "plantUmlCode SAMPLE_CONSULTING = []"
    by (simp_all add: SAMPLE_CONSULTING_def SAMPLE_READY_eq initialComponent_def)
  have second: "state (component_of (finishAndGenerate SAMPLE_CONSULTING SAMPLE_DIAGRAM_FAILS)) =
                  Consulting \<and>
                alerts (world_of (finishAndGenerate SAMPLE_CONSULTING SAMPLE_DIAGRAM_FAILS)) =
                  [ALERT_GENERATION_FAILED] \<and>
                plantUmlCode (component_of (finishAndGenerate SAMPLE_CONSULTING
                  SAMPLE_DIAGRAM_FAILS)) = []"
  proof -
    have "alerts SAMPLE_DIAGRAM_FAILS = []"
      by (simp add: SAMPLE_DIAGRAM_FAILS_def scripted_def)
    with before show ?thesis
      using finishAndGenerate_failure
              [of SAMPLE_CONSULTING SAMPLE_DIAGRAM_FAILS CallRejected "asc ''# PRD''"
                 "SAMPLE_DIAGRAM_FAILS
                    \<lparr>sent := [GenerateContent MODEL
                                (PrdPrompt (targetPlatform SAMPLE_CONSULTING)
                                   (compileHistory (messages SAMPLE_CONSULTING)))]\<rparr>"]
        sample_prd_call sample_diagram_call
      by simp
  qed
  have first: "state (component_of (finishAndGenerate SAMPLE_CONSULTING
                 (scripted [Inl CallRejected]))) = Consulting \<and>
               alerts (world_of (finishAndGenerate SAMPLE_CONSULTING
                 (scripted [Inl CallRejected]))) = [ALERT_GENERATION_FAILED] \<and>
               prdContent (component_of (finishAndGenerate SAMPLE_CONSULTING
                 (scripted [Inl CallRejected]))) = [] \<and>
               plantUmlCode (component_of (finishAndGenerate SAMPLE_CONSULTING
                 (scripted [Inl CallRejected]))) = []"
  proof -
    let ?w = "scripted [Inl CallRejected]"
    have "ai (geminiService SAMPLE_CONSULTING) \<noteq> None"
      by (simp add: SAMPLE_CONSULTING_def SAMPLE_READY_eq)
    then have "fst (generatePRD (geminiService SAMPLE_CONSULTING)
                     (compileHistory (messages SAMPLE_CONSULTING))
                     (targetPlatform SAMPLE_CONSULTING) ?w) = Inl CallRejected"
      by (simp add: generatePRD_cases scripted_def)
    moreover have "alerts ?w = []"
      by (simp add: scripted_def)
    ultimately show ?thesis
      using finishAndGenerate_failure [of SAMPLE_CONSULTING ?w CallRejected "[]" ?w] before
      by simp
  qed
  have requests: "length (sent (world_of (finishAndGenerate SAMPLE_CONSULTING
                    (scripted [Inl CallRejected])))) = 1"
  proof -
    let ?w = "scripted [Inl CallRejected]"
    have key: "ai (geminiService SAMPLE_CONSULTING) \<noteq> None"
      by (simp add: SAMPLE_CONSULTING_def SAMPLE_READY_eq)
    have rej: "replies ?w (length (sent ?w)) = Inl CallRejected"
      by (simp add: scripted_def)
    from finishAndGenerate_failure [of SAMPLE_CONSULTING ?w CallRejected "[]" ?w] key rej
    have "length (sent (world_of (finishAndGenerate SAMPLE_CONSULTING ?w))) =
            length (sent ?w) + 1"
      by blast
    then show ?thesis by (simp add: scripted_def)
  qed
  from first second requests show ?thesis by blast
qed

text \<open>
  Claim C1 as stated fails: after a rejection of the diagram call the PRD content, empty
  before the operation, is left set to the generated PRD.
\<close>

theorem finishAndGenerate_keeps_prd_counterexample:
  "prdContent SAMPLE_CONSULTING = [] \<and>
   prdContent (component_of (finishAndGenerate SAMPLE_CONSULTING SAMPLE_DIAGRAM_FAILS)) =
     asc ''# PRD'' \<and>
   \<not> (prdContent (component_of (finishAndGenerate SAMPLE_CONSULTING SAMPLE_DIAGRAM_FAILS)) = [] \<and>
      plantUmlCode (component_of (finishAndGenerate SAMPLE_CONSULTING SAMPLE_DIAGRAM_FAILS)) = [])"
proof -
  have d: "generatePlantUML (geminiService SAMPLE_CONSULTING)
          (compileHistory (messages SAMPLE_CONSULTING)) (targetPlatform SAMPLE_CONSULTING)
          (SAMPLE_DIAGRAM_FAILS
             \<lparr>sent := [GenerateContent MODEL
                         (PrdPrompt (targetPlatform SAMPLE_CONSULTING)
                            (compileHistory (messages SAMPLE_CONSULTING)))]\<rparr>) =
       (Inl CallRejected, snd (generatePlantUML (geminiService SAMPLE_CONSULTING)
          (compileHistory (messages SAMPLE_CONSULTING)) (targetPlatform SAMPLE_CONSULTING)
          (SAMPLE_DIAGRAM_FAILS
             \<lparr>sent := [GenerateContent MODEL
                         (PrdPrompt (targetPlatform SAMPLE_CONSULTING)
                            (compileHistory (messages SAMPLE_CONSULTING)))]\<rparr>)))"
    using sample_diagram_call by (simp add: prod_eq_iff)
  have "prdContent (component_of (finishAndGenerate SAMPLE_CONSULTING SAMPLE_DIAGRAM_FAILS)) =
          asc ''# PRD''"
    by (simp add: finishAndGenerate_second_fails [OF sample_prd_call d] outcome_defs)
  moreover have "prdContent SAMPLE_CONSULTING = []"
    by (simp add: SAMPLE_CONSULTING_def SAMPLE_READY_eq initialComponent_def)
  moreover have "asc ''# PRD'' \<noteq> []"
    by (simp add: asc_def)
  ultimately show ?thesis by simp
qed

section \<open>Chat histories\<close>

lemma sendMessage_resolved:
  assumes "chatInstance a = Some chat" and "passes_guard s"
    and "replies w (length (sent w)) = Inr t"
  shows "messages (component_of (sendMessage (compose s a) w)) =
           messages a @ [userMessage (send_text s) (send_images s),
                         modelMessage (text_or_empty t)]"
    and "chatInstance (component_of (sendMessage (compose s a) w)) = Some chat"
    and "replies (world_of (sendMessage (compose s a) w)) = replies w"
    and "length (sent (world_of (sendMessage (compose s a) w))) = Suc (length (sent w))"
  using assms
  by (auto simp: sendMessage_def compose_def passes_guard_def network_call_def outcome_defs
      Let_def)

lemma startConsultation_resolved:
  assumes "ai (geminiService a) = Some key" and "passes_guard s"
    and "replies w (length (sent w)) = Inr t"
  shows "messages (component_of (startConsultation (compose s a) w)) =
           messages a @ [userMessage (send_text s) (send_images s),
                         modelMessage (text_or_empty t)]"
    and "chatInstance (component_of (startConsultation (compose s a) w)) \<noteq> None"
    and "replies (world_of (startConsultation (compose s a) w)) = replies w"
    and "length (sent (world_of (startConsultation (compose s a) w))) = Suc (length (sent w))"
  using assms
  by (auto simp: startConsultation_def compose_def passes_guard_def network_call_def
      createChat_def ensureInitialized_def outcome_defs Let_def)

lemma all_resolve_Suc:
  "all_resolve w (Suc n) \<longleftrightarrow>
     \<not> isl (replies w (length (sent w))) \<and>
     list_all (\<lambda>k. \<not> isl (replies w (Suc (length (sent w)) + k))) [0..<n]"
proof -
  have "[0..<Suc n] = 0 # map Suc [0..<n]"
    by (simp add: upt_conv_Cons map_Suc_upt del: upt_Suc)
  then have "all_resolve w (Suc n) \<longleftrightarrow>
               list_all (\<lambda>k. \<not> isl (replies w (length (sent w) + k))) (0 # map Suc [0..<n])"
    by (simp only: all_resolve_def)
  then show ?thesis
    by (simp add: list.pred_map o_def del: upt_Suc)
qed

lemma sendAll_history:
  assumes "chatInstance a = Some chat" and "list_all passes_guard ss"
    and "all_resolve w (length ss)"
  shows "messages (fst (sendAll ss a w)) =
           messages a @ expected_history ss (replies w) (length (sent w))"
  using assms
proof (induction ss arbitrary: a w)
  case Nil
  then show ?case by simp
next
  case (Cons s ss)
  let ?r = "sendMessage (compose s a) w"
  from Cons.prems(3) obtain t where t: "replies w (length (sent w)) = Inr t"
    and rest: "list_all (\<lambda>k. \<not> isl (replies w (Suc (length (sent w)) + k))) [0..<length ss]"
    by (cases "replies w (length (sent w))") (auto simp: all_resolve_Suc)
  from Cons.prems have g: "passes_guard s" and gs: "list_all passes_guard ss" by simp_all
  note step = sendMessage_resolved [OF Cons.prems(1) g t]
  have "all_resolve (world_of ?r) (length ss)"
    using rest by (simp add: all_resolve_def step(3,4))
  from Cons.IH [OF step(2) gs this]
  show ?case
    by (simp add: Let_def step t)
qed

lemma expected_history_length: "length (expected_history ss rp k) = 2 * length ss"
  by (induction ss arbitrary: k) simp_all

lemma expected_history_roles:
  "i < 2 * length ss \<Longrightarrow>
   role (expected_history ss rp k ! i) = (if even i then User else Model)"
proof (induction ss arbitrary: k i)
  case Nil
  then show ?case by simp
next
  case (Cons s ss)
  show ?case
  proof (cases i)
    case 0
    then show ?thesis by (simp add: userMessage_def)
  next
    case (Suc j)
    show ?thesis
    proof (cases j)
      case 0
      with Suc show ?thesis by (simp add: modelMessage_def)
    next
      case (Suc m)
      with \<open>i = Suc j\<close> Cons.prems have "m < 2 * length ss" by simp
      from Cons.IH [OF this, of "Suc k"] Suc \<open>i = Suc j\<close> show ?thesis by simp
    qed
  qed
qed

lemma session_history:
  assumes "ai (geminiService a) = Some key" and "messages a = []"
    and "list_all passes_guard sends" and "all_resolve w (length sends)"
  shows "messages (fst (session sends a w)) =
           expected_history sends (replies w) (length (sent w))"
proof (cases sends)
  case Nil
  with assms show ?thesis by (simp add: session_def)
next
  case (Cons s ss)
  let ?r = "startConsultation (compose s a) w"
  from assms(4) Cons obtain t where t: "replies w (length (sent w)) = Inr t"
    and rest: "list_all (\<lambda>k. \<not> isl (replies w (Suc (length (sent w)) + k))) [0..<length ss]"
    by (cases "replies w (length (sent w))") (auto simp: all_resolve_Suc)
  from assms(3) Cons have g: "passes_guard s" and gs: "list_all passes_guard ss" by simp_all
  note step = startConsultation_resolved [OF assms(1) g t]
  from step(2) obtain chat where chat: "chatInstance (component_of ?r) = Some chat" by auto
  have "all_resolve (world_of ?r) (length ss)"
    using rest by (simp add: all_resolve_def step(3,4))
  from sendAll_history [OF chat gs this] Cons assms(2)
  show ?thesis
    by (simp add: session_def Let_def step t)
qed

text \<open>
  Claim C2. A session is started on a component with a key and an empty history and runs
  \<open>n\<close> sends, the first through \<open>startConsultation\<close> and the others through
  \<open>sendMessage\<close>, each passing the entry point's guard and each with a call that
  resolves. Then the history has exactly \<open>2 * n\<close> messages, the roles alternate beginning
  with the user, and the messages are the user's texts each followed by the reply to it.
\<close>

theorem successful_sends_history:
  assumes "ai (geminiService a) \<noteq> None" and "messages a = []"
    and "list_all passes_guard sends" and "all_resolve w (length sends)"
  shows "length (messages (fst (session sends a w))) = 2 * length sends \<and>
         (\<forall>i. i < 2 * length sends \<longrightarrow>
              role (messages (fst (session sends a w)) ! i) = (if even i then User else Model)) \<and>
         messages (fst (session sends a w)) =
           expected_history sends (replies w) (length (sent w))"
proof -
  from assms(1) obtain key where "ai (geminiService a) = Some key" by auto
  from session_history [OF this assms(2-4)]
  show ?thesis
    by (simp add: expected_history_length expected_history_roles)
qed

theorem successful_sends_history_witness:
  "length (messages (fst (session SAMPLE_SENDS SAMPLE_READY
      (scripted [Inr (Some (asc ''Who is it for?'')), Inr None, Inr (Some (asc ''Noted.''))])))) = 6 \<and>
   map role (messages (fst (session SAMPLE_SENDS SAMPLE_READY
      (scripted [Inr (Some (asc ''Who is it for?'')), Inr None, Inr (Some (asc ''Noted.''))])))) =
     [User, Model, User, Model, User, Model]"
proof -
  let ?w = "scripted [Inr (Some (asc ''Who is it for?'')), Inr None, Inr (Some (asc ''Noted.''))]"
  have 1: "ai (geminiService SAMPLE_READY) \<noteq> None"
    by (simp add: SAMPLE_READY_def submitApiKey_def initialComponent_def setApiKey_def
        js_trim_def trim_start_def trim_end_def is_ws_def asc_def)
  have 2: "messages SAMPLE_READY = []"
    by (simp add: SAMPLE_READY_def submitApiKey_def initialComponent_def setApiKey_def)
  have 3: "list_all passes_guard SAMPLE_SENDS"
    by (simp add: SAMPLE_SENDS_def passes_guard_def js_trim_def trim_start_def trim_end_def
        is_ws_def asc_def)
  have 4: "all_resolve ?w (length SAMPLE_SENDS)"
    by (simp add: all_resolve_def scripted_def SAMPLE_SENDS_def upt_rec)
  have eq: "messages (fst (session SAMPLE_SENDS SAMPLE_READY ?w)) =
              expected_history SAMPLE_SENDS (replies ?w) (length (sent ?w))"
    using successful_sends_history [OF 1 2 3 4] by simp
  show ?thesis
    unfolding eq
    by (simp add: SAMPLE_SENDS_def userMessage_def modelMessage_def)
qed

lemma sendMessage_rejected:
  assumes "chatInstance a = Some chat"
    and "js_trim (userInput a) \<noteq> [] \<or> selectedImages a \<noteq> []"
    and "replies w (length (sent w)) = Inl e"
  shows "rejection_of (sendMessage a w) = None"
    and "messages (component_of (sendMessage a w)) =
           messages a @ [userMessage (userInput a) (selectedImages a),
                         modelMessage MSG_CONNECTION_ERROR]"
    and "isChatLoading (component_of (sendMessage a w)) = False"
  using assms by (auto simp: sendMessage_def network_call_def outcome_defs Let_def)

lemma sendSddReply_rejected:
  assumes "sddChatInstance a = Some chat"
    and "js_trim (sddReplyInput a) \<noteq> []"
    and "replies w (length (sent w)) = Inl e"
  shows "rejection_of (sendSddReply a w) = None"
    and "sddMessages (component_of (sendSddReply a w)) =
           sddMessages a @ [sddUserMessage (sddReplyInput a),
                            modelMessage MSG_SDD_CONNECTION_ERROR]"
    and "isSddGenerating (component_of (sendSddReply a w)) = False"
  using assms by (auto simp: sendSddReply_def network_call_def outcome_defs Let_def)

lemma startConsultation_rejected:
  assumes "ai (geminiService a) = Some k"
    and "js_trim (userInput a) \<noteq> [] \<or> selectedImages a \<noteq> []"
    and "replies w (length (sent w)) = Inl e"
  shows "rejection_of (startConsultation a w) = None"
    and "messages (component_of (startConsultation a w)) =
           messages a @ [userMessage (userInput a) (selectedImages a),
                         modelMessage MSG_CONSULT_ERROR]"
    and "isChatLoading (component_of (startConsultation a w)) = False"
  using assms
  by (auto simp: startConsultation_def createChat_def ensureInitialized_def network_call_def
      outcome_defs Let_def)

text \<open>
  Claim C3. A send whose external call rejects appends the user's message and then one
  fallback assistant message, so the history grows by exactly two and what it held before
  is still its prefix. This holds for \<open>sendMessage\<close> and \<open>sendSddReply\<close> on a session
  that exists, and for \<open>startConsultation\<close> on a component with a key.
\<close>

theorem failed_send_appends_user_and_fallback:
  "(chatInstance a = Some chat \<and> (js_trim (userInput a) \<noteq> [] \<or> selectedImages a \<noteq> []) \<and>
    replies w (length (sent w)) = Inl e \<longrightarrow>
      messages (component_of (sendMessage a w)) =
        messages a @ [userMessage (userInput a) (selectedImages a),
                      modelMessage MSG_CONNECTION_ERROR] \<and>
      length (messages (component_of (sendMessage a w))) = length (messages a) + 2 \<and>
      take (length (messages a)) (messages (component_of (sendMessage a w))) = messages a) \<and>
   (sddChatInstance a = Some chat \<and> js_trim (sddReplyInput a) \<noteq> [] \<and>
    replies w (length (sent w)) = Inl e \<longrightarrow>
      sddMessages (component_of (sendSddReply a w)) =
        sddMessages a @ [sddUserMessage (sddReplyInput a),
                         modelMessage MSG_SDD_CONNECTION_ERROR] \<and>
      length (sddMessages (component_of (sendSddReply a w))) = length (sddMessages a) + 2 \<and>
      take (length (sddMessages a)) (sddMessages (component_of (sendSddReply a w))) =
        sddMessages a) \<and>
   (ai (geminiService a) = Some key \<and>
    (js_trim (userInput a) \<noteq> [] \<or> selectedImages a \<noteq> []) \<and>
    replies w (length (sent w)) = Inl e \<longrightarrow>
      messages (component_of (startConsultation a w)) =
        messages a @ [userMessage (userInput a) (selectedImages a),
                      modelMessage MSG_CONSULT_ERROR] \<and>
      length (messages (component_of (startConsultation a w))) = length (messages a) + 2 \<and>
      take (length (messages a)) (messages (component_of (startConsultation a w))) =
        messages a)"
proof (intro conjI impI)
  assume h: "chatInstance a = Some chat \<and>
             (js_trim (userInput a) \<noteq> [] \<or> selectedImages a \<noteq> []) \<and>
             replies w (length (sent w)) = Inl e"
  then have eq: "messages (component_of (sendMessage a w)) =
                   messages a @ [userMessage (userInput a) (selectedImages a),
                                 modelMessage MSG_CONNECTION_ERROR]"
    by (intro sendMessage_rejected(2)) simp_all
  show "messages (component_of (sendMessage a w)) =
          messages a @ [userMessage (userInput a) (selectedImages a),
                        modelMessage MSG_CONNECTION_ERROR]"
    by (rule eq)
  show "length (messages (component_of (sendMessage a w))) = length (messages a) + 2"
    by (simp add: eq)
  show "take (length (messages a)) (messages (component_of (sendMessage a w))) = messages a"
    by (simp add: eq)
next
  assume h: "sddChatInstance a = Some chat \<and> js_trim (sddReplyInput a) \<noteq> [] \<and>
             replies w (length (sent w)) = Inl e"
  then have eq: "sddMessages (component_of (sendSddReply a w)) =
                   sddMessages a @ [sddUserMessage (sddReplyInput a),
                                    modelMessage MSG_SDD_CONNECTION_ERROR]"
    by (intro sendSddReply_rejected(2)) simp_all
  show "sddMessages (component_of (sendSddReply a w)) =
          sddMessages a @ [sddUserMessage (sddReplyInput a),
                           modelMessage MSG_SDD_CONNECTION_ERROR]"
    by (rule eq)
  show "length (sddMessages (component_of (sendSddReply a w))) = length (sddMessages a) + 2"
    by (simp add: eq)
  show "take (length (sddMessages a)) (sddMessages (component_of (sendSddReply a w))) =
          sddMessages a"
    by (simp add: eq)
next
  assume h: "ai (geminiService a) = Some key \<and>
             (js_trim (userInput a) \<noteq> [] \<or> selectedImages a \<noteq> []) \<and>
             replies w (length (sent w)) = Inl e"
  then have eq: "messages (component_of (startConsultation a w)) =
                   messages a @ [userMessage (userInput a) (selectedImages a),
                                 modelMessage MSG_CONSULT_ERROR]"
    by (intro startConsultation_rejected(2)) simp_all
  show "messages (component_of (startConsultation a w)) =
          messages a @ [userMessage (userInput a) (selectedImages a),
                        modelMessage MSG_CONSULT_ERROR]"
    by (rule eq)
  show "length (messages (component_of (startConsultation a w))) = length (messages a) + 2"
    by (simp add: eq)
  show "take (length (messages a)) (messages (component_of (startConsultation a w))) =
          messages a"
    by (simp add: eq)
qed

theorem failed_send_appends_user_and_fallback_witness:
  "messages
     (component_of
        (sendMessage (SAMPLE_CONSULTING\<lparr>userInput := asc ''for students''\<rparr>)
           (scripted [Inl CallRejected]))) =
   [userMessage (asc ''idea'') [], modelMessage (asc ''Who is it for?''),
    userMessage (asc ''for students'') [], modelMessage MSG_CONNECTION_ERROR] \<and>
   sddMessages
     (component_of
        (sendSddReply
           (SAMPLE_READY\<lparr>sddChatInstance := Some SAMPLE_CHAT,
                          sddMessages := [modelMessage (asc ''# SDD'')],
                          sddReplyInput := asc ''use SQLite''\<rparr>)
           (scripted [Inl CallRejected]))) =
   [modelMessage (asc ''# SDD''), sddUserMessage (asc ''use SQLite''),
    modelMessage MSG_SDD_CONNECTION_ERROR] \<and>
   messages
     (component_of
        (startConsultation (SAMPLE_READY\<lparr>userInput := asc ''idea''\<rparr>)
           (scripted [Inl CallRejected]))) =
   [userMessage (asc ''idea'') [], modelMessage MSG_CONSULT_ERROR]"
proof -
  let ?w = "scripted [Inl CallRejected]"
  have rej: "replies ?w (length (sent ?w)) = Inl CallRejected"
    by (simp add: scripted_def)
  have fresh: "messages SAMPLE_READY = []" "selectedImages SAMPLE_READY = []"
    by (simp_all add: SAMPLE_READY_eq initialComponent_def)
  have a: "messages
             (component_of
                (sendMessage (SAMPLE_CONSULTING\<lparr>userInput := asc ''for students''\<rparr>) ?w)) =
           [userMessage (asc ''idea'') [], modelMessage (asc ''Who is it for?''),
            userMessage (asc ''for students'') [], modelMessage MSG_CONNECTION_ERROR]"
  proof -
    let ?a = "SAMPLE_CONSULTING\<lparr>userInput := asc ''for students''\<rparr>"
    have 1: "chatInstance ?a = Some SAMPLE_CHAT"
      by (simp add: SAMPLE_CONSULTING_def)
    have 2: "js_trim (userInput ?a) \<noteq> [] \<or> selectedImages ?a \<noteq> []"
      by (simp add: trim_defs asc_def)
    have 4: "messages ?a = [userMessage (asc ''idea'') [], modelMessage (asc ''Who is it for?'')]"
      by (simp add: SAMPLE_CONSULTING_def)
    have 5: "selectedImages ?a = []"
      by (simp add: SAMPLE_CONSULTING_def fresh)
    from failed_send_appends_user_and_fallback [of ?a SAMPLE_CHAT ?w CallRejected] 1 2 rej
    have "messages (component_of (sendMessage ?a ?w)) =
            messages ?a @ [userMessage (userInput ?a) (selectedImages ?a),
                           modelMessage MSG_CONNECTION_ERROR]"
      by blast
    then show ?thesis
      by (simp only: 4 5) simp
  qed
  have b: "sddMessages
             (component_of
                (sendSddReply
                   (SAMPLE_READY\<lparr>sddChatInstance := Some SAMPLE_CHAT,
                                  sddMessages := [modelMessage (asc ''# SDD'')],
                                  sddReplyInput := asc ''use SQLite''\<rparr>) ?w)) =
           [modelMessage (asc ''# SDD''), sddUserMessage (asc ''use SQLite''),
            modelMessage MSG_SDD_CONNECTION_ERROR]"
  proof -
    let ?a = "SAMPLE_READY\<lparr>sddChatInstance := Some SAMPLE_CHAT,
                            sddMessages := [modelMessage (asc ''# SDD'')],
                            sddReplyInput := asc ''use SQLite''\<rparr>"
    have 1: "sddChatInstance ?a = Some SAMPLE_CHAT" by simp
    have 2: "js_trim (sddReplyInput ?a) \<noteq> []"
      by (simp add: trim_defs asc_def)
    from failed_send_appends_user_and_fallback [of ?a SAMPLE_CHAT ?w CallRejected] 1 2 rej
    have "sddMessages (component_of (sendSddReply ?a ?w)) =
            sddMessages ?a @ [sddUserMessage (sddReplyInput ?a),
                              modelMessage MSG_SDD_CONNECTION_ERROR]"
      by blast
    then show ?thesis by simp
  qed
  have c: "messages
             (component_of (startConsultation (SAMPLE_READY\<lparr>userInput := asc ''idea''\<rparr>) ?w)) =
           [userMessage (asc ''idea'') [], modelMessage MSG_CONSULT_ERROR]"
  proof -
    let ?a = "SAMPLE_READY\<lparr>userInput := asc ''idea''\<rparr>"
    have 1: "ai (geminiService ?a) = Some (asc ''key'')"
      by (simp add: SAMPLE_READY_eq)
    have 2: "js_trim (userInput ?a) \<noteq> [] \<or> selectedImages ?a \<noteq> []"
      by (simp add: trim_defs asc_def)
    from failed_send_appends_user_and_fallback
           [of ?a SAMPLE_CHAT ?w CallRejected "asc ''key''"] 1 2 rej
    have "messages (component_of (startConsultation ?a ?w)) =
            messages ?a @ [userMessage (userInput ?a) (selectedImages ?a),
                           modelMessage MSG_CONSULT_ERROR]"
      by blast
    then show ?thesis by (simp add: fresh)
  qed
  from a b c show ?thesis by blast
qed

section \<open>The credential\<close>

text \<open>
  Claim C6. On a service whose key was never set, \<open>createChat\<close>, \<open>createSddChat\<close>,
  \<open>generatePRD\<close> and \<open>generatePlantUML\<close> fail with the error of \<open>ensureInitialized\<close>, and
  the two generation operations leave the environment as it was: no request has been sent.
\<close>

theorem operations_fail_fast_without_key:
  assumes "ai svc = None"
  shows "createChat svc = Inl ApiKeyNotSet \<and> createSddChat svc = Inl ApiKeyNotSet \<and>
         generatePRD svc h p w = (Inl ApiKeyNotSet, w) \<and>
         generatePlantUML svc h p w = (Inl ApiKeyNotSet, w) \<and>
         sent (snd (generatePRD svc h p w)) = sent w \<and>
         sent (snd (generatePlantUML svc h p w)) = sent w"
  using assms
  by (simp add: createChat_def createSddChat_def generatePRD_def generatePlantUML_def
      ensureInitialized_def)

theorem operations_fail_fast_without_key_witness:
  "ai (geminiService initialComponent) = None \<and>
   createChat (geminiService initialComponent) = Inl ApiKeyNotSet \<and>
   createSddChat (geminiService initialComponent) = Inl ApiKeyNotSet \<and>
   generatePRD (geminiService initialComponent) (asc ''User: idea'') (asc ''Python'')
     (scripted [Inr (Some (asc ''# PRD''))]) =
     (Inl ApiKeyNotSet, scripted [Inr (Some (asc ''# PRD''))]) \<and>
   generatePlantUML (geminiService initialComponent) (asc ''User: idea'') (asc ''Python'')
     (scripted [Inr (Some (asc ''@startuml@enduml''))]) =
     (Inl ApiKeyNotSet, scripted [Inr (Some (asc ''@startuml@enduml''))])"
proof -
  have none: "ai (geminiService initialComponent) = None"
    by (simp add: initialComponent_def)
  from operations_fail_fast_without_key [OF none] none show ?thesis
    by blast
qed

section \<open>Busy flags\<close>

text \<open>
  \<open>sendMessage\<close>, \<open>sendSddReply\<close> and \<open>finishAndGenerate\<close> never leave their busy flag
  set, and neither do \<open>startConsultation\<close> and \<open>generateSdd\<close> on a service with a key.
\<close>

lemma sendMessage_clears_busy:
  "isChatLoading (component_of (sendMessage a w)) =
     (if (js_trim (userInput a) = [] \<and> selectedImages a = []) \<or> chatInstance a = None
      then isChatLoading a else False)"
  by (auto simp: sendMessage_def network_call_def outcome_defs Let_def split: sum.splits)

lemma sendSddReply_clears_busy:
  "isSddGenerating (component_of (sendSddReply a w)) =
     (if js_trim (sddReplyInput a) = [] \<or> sddChatInstance a = None
      then isSddGenerating a else False)"
  by (auto simp: sendSddReply_def network_call_def outcome_defs Let_def split: sum.splits)

lemma finishAndGenerate_leaves_generating:
  "state (component_of (finishAndGenerate a w)) \<noteq> Generating \<and>
   rejection_of (finishAndGenerate a w) = None"
  by (auto simp: finishAndGenerate_def generationFailed_def outcome_defs Let_def
      split: sum.splits prod.splits)

lemma startConsultation_with_key_clears_busy:
  assumes "ai (geminiService a) \<noteq> None"
    and "js_trim (userInput a) \<noteq> [] \<or> selectedImages a \<noteq> []"
  shows "isChatLoading (component_of (startConsultation a w)) = False \<and>
         rejection_of (startConsultation a w) = None"
  using assms
  by (auto simp: startConsultation_def createChat_def ensureInitialized_def network_call_def
      outcome_defs Let_def split: sum.splits)

lemma generateSdd_with_key_clears_busy:
  assumes "ai (geminiService a) \<noteq> None" and "js_trim (sddInput a) \<noteq> []"
  shows "isSddGenerating (component_of (generateSdd a w)) = False \<and>
         rejection_of (generateSdd a w) = None"
  using assms
  by (auto simp: generateSdd_def createSddChat_def ensureInitialized_def network_call_def
      outcome_defs Let_def split: sum.splits)

text \<open>
  Claim C7 at a component whose key was never submitted: \<open>startConsultation\<close> and
  \<open>generateSdd\<close> create their chat before the \<open>try\<close> block, so the error of
  \<open>ensureInitialized\<close> rejects the promise after the busy flag was set and before the
  \<open>finally\<close> block that clears it is entered.
\<close>

theorem entry_points_without_key_stay_busy:
  "rejection_of (startConsultation (initialComponent\<lparr>userInput := asc ''idea''\<rparr>) (scripted [])) =
     Some ApiKeyNotSet \<and>
   isChatLoading
     (component_of (startConsultation (initialComponent\<lparr>userInput := asc ''idea''\<rparr>) (scripted []))) \<and>
   rejection_of (generateSdd (initialComponent\<lparr>sddInput := asc ''# PRD''\<rparr>) (scripted [])) =
     Some ApiKeyNotSet \<and>
   isSddGenerating
     (component_of (generateSdd (initialComponent\<lparr>sddInput := asc ''# PRD''\<rparr>) (scripted [])))"
  by (simp add: startConsultation_def generateSdd_def createChat_def createSddChat_def
      ensureInitialized_def initialComponent_def outcome_defs trim_defs asc_def Let_def)

section \<open>The initial SDD turn\<close>

text \<open>
  Whenever \<open>generateSdd\<close> fails, for want of a key or by rejection of its call, the SDD
  history is left empty and \<open>sddResult\<close> keeps its value. When the call rejects, the alert
  is shown and the busy flag is cleared.
\<close>

lemma generateSdd_failure_keeps_result:
  assumes "js_trim (sddInput a) \<noteq> []"
    and "ai (geminiService a) = None \<or> isl (replies w (length (sent w)))"
  shows "sddMessages (component_of (generateSdd a w)) = [] \<and>
         sddResult (component_of (generateSdd a w)) = sddResult a"
  using assms
  by (auto simp: generateSdd_def createSddChat_def ensureInitialized_def network_call_def
      alert_def outcome_defs Let_def split: sum.splits option.splits)

lemma generateSdd_rejected:
  assumes "js_trim (sddInput a) \<noteq> []" and "ai (geminiService a) \<noteq> None"
    and "replies w (length (sent w)) = Inl e"
  shows "rejection_of (generateSdd a w) = None \<and>
         sddMessages (component_of (generateSdd a w)) = [] \<and>
         sddResult (component_of (generateSdd a w)) = sddResult a \<and>
         isSddGenerating (component_of (generateSdd a w)) = False \<and>
         alerts (world_of (generateSdd a w)) = alerts w @ [ALERT_SDD_START_FAILED]"
  using assms
  by (auto simp: generateSdd_def createSddChat_def ensureInitialized_def network_call_def
      alert_def outcome_defs Let_def)

text \<open>
  Claim C10 at a component whose key was never submitted. \<open>generateSdd\<close> fails there: the
  SDD history, cleared at the start, stays empty and \<open>sddResult\<close> keeps its value, as the
  claim says. But \<open>createSddChat\<close> is called before the \<open>try\<close> block, so its error
  rejects the promise past the \<open>catch\<close> and \<open>finally\<close> blocks: no alert is shown and
  the busy flag stays set.
\<close>

theorem generateSdd_without_key_no_alert:
  "rejection_of
     (generateSdd
        (initialComponent\<lparr>sddInput := asc ''# PRD'', sddResult := asc ''# old SDD'',
                           sddMessages := [modelMessage (asc ''# old SDD'')]\<rparr>)
        (scripted [])) = Some ApiKeyNotSet \<and>
   sddMessages
     (component_of
        (generateSdd
           (initialComponent\<lparr>sddInput := asc ''# PRD'', sddResult := asc ''# old SDD'',
                              sddMessages := [modelMessage (asc ''# old SDD'')]\<rparr>)
           (scripted []))) = [] \<and>
   sddResult
     (component_of
        (generateSdd
           (initialComponent\<lparr>sddInput := asc ''# PRD'', sddResult := asc ''# old SDD'',
                              sddMessages := [modelMessage (asc ''# old SDD'')]\<rparr>)
           (scripted []))) = asc ''# old SDD'' \<and>
   alerts
     (world_of
        (generateSdd
           (initialComponent\<lparr>sddInput := asc ''# PRD'', sddResult := asc ''# old SDD'',
                              sddMessages := [modelMessage (asc ''# old SDD'')]\<rparr>)
           (scripted []))) = [] \<and>
   isSddGenerating
     (component_of
        (generateSdd
           (initialComponent\<lparr>sddInput := asc ''# PRD'', sddResult := asc ''# old SDD'',
                              sddMessages := [modelMessage (asc ''# old SDD'')]\<rparr>)
           (scripted []))) \<and>
   sent
     (world_of
        (generateSdd
           (initialComponent\<lparr>sddInput := asc ''# PRD'', sddResult := asc ''# old SDD'',
                              sddMessages := [modelMessage (asc ''# old SDD'')]\<rparr>)
           (scripted []))) = []"
  by (simp add: generateSdd_def createSddChat_def ensureInitialized_def initialComponent_def
      outcome_defs trim_defs asc_def scripted_def Let_def)

section \<open>Reset and attachments\<close>

lemma finishAndGenerate_both_resolve:
  assumes "ai (geminiService a) \<noteq> None" and "replies w (length (sent w)) = Inr t"
    and "replies w (Suc (length (sent w))) = Inr t'"
  shows "rejection_of (finishAndGenerate a w) = None"
    and "state (component_of (finishAndGenerate a w)) = Finished"
    and "generationStatus (component_of (finishAndGenerate a w)) = STATUS_DONE"
    and "prdContent (component_of (finishAndGenerate a w)) =
           cleanMarkdown (text_or t (asc ''# Error Generating PRD''))"
    and "plantUmlCode (component_of (finishAndGenerate a w)) =
           extractPlantUML (text_or_empty t')"
  by (simp_all add: finishAndGenerate_def generatePRD_cases generatePlantUML_cases assms
      outcome_defs Let_def)

text \<open>
  Claim C8, as amended. \<open>reset\<close> sets the phase to \<open>initial\<close> and empties the message
  history, the PRD content, the diagram code, the chat instance and the pending
  attachments, so that each of them has the value of a freshly constructed component and
  no diagram URL is derived; the zoom is reset. The earlier session cannot be continued
  (\<open>sendMessage\<close> does nothing), and a consultation started afterwards holds the messages of
  its own sends only. The active result tab, the status line, the text in the input box
  and the loading and copied flags keep the values they had, and so do the service, the
  target platform and the SDD flow: nothing but the eight fields named is changed.
\<close>

theorem reset_clears_consultation:
  "state (reset a) = Initial \<and> messages (reset a) = [] \<and> prdContent (reset a) = [] \<and>
   plantUmlCode (reset a) = [] \<and> chatInstance (reset a) = None \<and>
   selectedImages (reset a) = [] \<and> zoomLevel (reset a) = 1 \<and> pan (reset a) = (0, 0) \<and>
   diagramUrl deflate (reset a) = [] \<and>
   state (reset a) = state initialComponent \<and>
   messages (reset a) = messages initialComponent \<and>
   prdContent (reset a) = prdContent initialComponent \<and>
   plantUmlCode (reset a) = plantUmlCode initialComponent \<and>
   chatInstance (reset a) = chatInstance initialComponent \<and>
   selectedImages (reset a) = selectedImages initialComponent \<and>
   geminiService (reset a) = geminiService a \<and> targetPlatform (reset a) = targetPlatform a \<and>
   sddMessages (reset a) = sddMessages a \<and> sddResult (reset a) = sddResult a \<and>
   sddChatInstance (reset a) = sddChatInstance a \<and> sddInput (reset a) = sddInput a \<and>
   activeTab (reset a) = activeTab a \<and> generationStatus (reset a) = generationStatus a \<and>
   userInput (reset a) = userInput a \<and> isChatLoading (reset a) = isChatLoading a \<and>
   isCopied (reset a) = isCopied a \<and>
   reset a =
     a\<lparr>state := Initial, messages := [], prdContent := [], plantUmlCode := [],
       chatInstance := None, selectedImages := [], zoomLevel := 1, pan := (0, 0)\<rparr> \<and>
   sendMessage (reset a) w = (None, reset a, w) \<and>
   (ai (geminiService a) \<noteq> None \<and> list_all passes_guard sends \<and>
    all_resolve w (length sends) \<longrightarrow>
      messages (fst (session sends (reset a) w)) =
        expected_history sends (replies w) (length (sent w)))"
proof -
  have fields:
    "state (reset a) = Initial \<and> messages (reset a) = [] \<and> prdContent (reset a) = [] \<and>
     plantUmlCode (reset a) = [] \<and> chatInstance (reset a) = None \<and>
     selectedImages (reset a) = [] \<and> zoomLevel (reset a) = 1 \<and> pan (reset a) = (0, 0) \<and>
     diagramUrl deflate (reset a) = [] \<and>
     state (reset a) = state initialComponent \<and>
     messages (reset a) = messages initialComponent \<and>
     prdContent (reset a) = prdContent initialComponent \<and>
     plantUmlCode (reset a) = plantUmlCode initialComponent \<and>
     chatInstance (reset a) = chatInstance initialComponent \<and>
     selectedImages (reset a) = selectedImages initialComponent \<and>
     geminiService (reset a) = geminiService a \<and> targetPlatform (reset a) = targetPlatform a \<and>
     sddMessages (reset a) = sddMessages a \<and> sddResult (reset a) = sddResult a \<and>
     sddChatInstance (reset a) = sddChatInstance a \<and> sddInput (reset a) = sddInput a \<and>
     activeTab (reset a) = activeTab a \<and> generationStatus (reset a) = generationStatus a \<and>
     userInput (reset a) = userInput a \<and> isChatLoading (reset a) = isChatLoading a \<and>
     isCopied (reset a) = isCopied a"
    by (simp add: reset_def resetZoom_def diagramUrl_def initialComponent_def)
  have whole: "reset a =
                 a\<lparr>state := Initial, messages := [], prdContent := [], plantUmlCode := [],
                   chatInstance := None, selectedImages := [], zoomLevel := 1, pan := (0, 0)\<rparr>"
    by (simp add: reset_def resetZoom_def)
  have gone: "sendMessage (reset a) w = (None, reset a, w)"
    using fields by (simp add: sendMessage_def)
  have fresh: "messages (fst (session sends (reset a) w)) =
                 expected_history sends (replies w) (length (sent w))"
    if h: "ai (geminiService a) \<noteq> None \<and> list_all passes_guard sends \<and>
           all_resolve w (length sends)"
  proof -
    from h obtain key where "ai (geminiService a) = Some key" by auto
    with fields have k: "ai (geminiService (reset a)) = Some key" by simp
    from fields have m: "messages (reset a) = []" by blast
    from h have g: "list_all passes_guard sends" and r: "all_resolve w (length sends)"
      by blast+
    from session_history [OF k m g r] show ?thesis .
  qed
  from fields whole gone fresh show ?thesis by blast
qed

theorem reset_clears_consultation_witness:
  "state SAMPLE_FINISHED = Finished \<and> messages SAMPLE_FINISHED \<noteq> [] \<and>
   prdContent SAMPLE_FINISHED \<noteq> [] \<and> plantUmlCode SAMPLE_FINISHED \<noteq> [] \<and>
   state (reset SAMPLE_FINISHED) = Initial \<and> messages (reset SAMPLE_FINISHED) = [] \<and>
   prdContent (reset SAMPLE_FINISHED) = [] \<and> plantUmlCode (reset SAMPLE_FINISHED) = [] \<and>
   chatInstance (reset SAMPLE_FINISHED) = None \<and> selectedImages (reset SAMPLE_FINISHED) = [] \<and>
   sddResult (reset SAMPLE_FINISHED) = asc ''# SDD'' \<and>
   map role (messages (fst (session SAMPLE_SENDS (reset SAMPLE_FINISHED)
      (scripted [Inr (Some (asc ''Who is it for?'')), Inr None, Inr (Some (asc ''Noted.''))])))) =
     [User, Model, User, Model, User, Model]"
proof -
  let ?w = "scripted [Inr (Some (asc ''Who is it for?'')), Inr None, Inr (Some (asc ''Noted.''))]"
  have before: "state SAMPLE_FINISHED = Finished \<and> messages SAMPLE_FINISHED \<noteq> [] \<and>
                prdContent SAMPLE_FINISHED \<noteq> [] \<and> plantUmlCode SAMPLE_FINISHED \<noteq> []"
    by (simp add: SAMPLE_FINISHED_def SAMPLE_CONSULTING_def asc_def)
  have sdd: "sddResult SAMPLE_FINISHED = asc ''# SDD''"
    by (simp add: SAMPLE_FINISHED_def)
  have key: "ai (geminiService SAMPLE_FINISHED) \<noteq> None"
    by (simp add: SAMPLE_FINISHED_def SAMPLE_CONSULTING_def SAMPLE_READY_eq)
  have guards: "list_all passes_guard SAMPLE_SENDS"
    by (simp add: SAMPLE_SENDS_def passes_guard_def trim_defs asc_def)
  have resolve: "all_resolve ?w (length SAMPLE_SENDS)"
    by (simp add: all_resolve_def scripted_def SAMPLE_SENDS_def upt_rec)
  note r = reset_clears_consultation
             [where a = SAMPLE_FINISHED and deflate = "\<lambda>bs. Inr bs" and w = ?w
                and sends = SAMPLE_SENDS]
  from r key guards resolve
  have "messages (fst (session SAMPLE_SENDS (reset SAMPLE_FINISHED) ?w)) =
          expected_history SAMPLE_SENDS (replies ?w) (length (sent ?w))"
    by blast
  then have run: "map role (messages (fst (session SAMPLE_SENDS (reset SAMPLE_FINISHED) ?w))) =
                    [User, Model, User, Model, User, Model]"
    by (simp add: SAMPLE_SENDS_def userMessage_def modelMessage_def)
  from r before sdd run show ?thesis by simp
qed

text \<open>
  Claim C8 as stated fails: state of the consultation flow that \<open>reset\<close> does not assign
  outlives it. After a generation that finished, the status line still reads that the
  run is complete; a result tab that was switched to the diagram stays selected; a text
  left in the input box is still there. A freshly constructed component has an empty
  status line and the PRD tab selected.
\<close>

theorem reset_keeps_flow_state_counterexample:
  "state (component_of (finishAndGenerate SAMPLE_CONSULTING SAMPLE_BOTH_RESOLVE)) = Finished \<and>
   generationStatus (reset (component_of (finishAndGenerate SAMPLE_CONSULTING
     SAMPLE_BOTH_RESOLVE))) = STATUS_DONE \<and>
   STATUS_DONE \<noteq> generationStatus initialComponent \<and>
   state SAMPLE_FINISHED = Finished \<and>
   activeTab (reset SAMPLE_FINISHED) = DiagramTab \<and>
   activeTab initialComponent = PrdTab \<and>
   userInput (reset (SAMPLE_FINISHED\<lparr>userInput := asc ''thanks''\<rparr>)) = asc ''thanks''"
proof -
  have key: "ai (geminiService SAMPLE_CONSULTING) \<noteq> None"
    by (simp add: SAMPLE_CONSULTING_def SAMPLE_READY_eq)
  have r1: "replies SAMPLE_BOTH_RESOLVE (length (sent SAMPLE_BOTH_RESOLVE)) =
              Inr (Some (asc ''# PRD''))"
    and r2: "replies SAMPLE_BOTH_RESOLVE (Suc (length (sent SAMPLE_BOTH_RESOLVE))) =
               Inr (Some (asc ''@startuml A -> B @enduml''))"
    by (simp_all add: SAMPLE_BOTH_RESOLVE_def scripted_def)
  note run = finishAndGenerate_both_resolve [OF key r1 r2]
  have "generationStatus (reset (component_of (finishAndGenerate SAMPLE_CONSULTING
          SAMPLE_BOTH_RESOLVE))) = STATUS_DONE"
    by (simp add: reset_def resetZoom_def run(3))
  moreover have "STATUS_DONE \<noteq> generationStatus initialComponent"
    by (simp add: STATUS_DONE_def initialComponent_def)
  moreover have "state SAMPLE_FINISHED = Finished"
    and "activeTab (reset SAMPLE_FINISHED) = DiagramTab"
    by (simp_all add: SAMPLE_FINISHED_def reset_def resetZoom_def)
  moreover have "activeTab initialComponent = PrdTab"
    by (simp add: initialComponent_def)
  moreover have "userInput (reset (SAMPLE_FINISHED\<lparr>userInput := asc ''thanks''\<rparr>)) =
                   asc ''thanks''"
    by (simp add: reset_def resetZoom_def)
  ultimately show ?thesis using run(2) by blast
qed

lemma filter_index_remove:
  "filter_index (\<lambda>i. int i \<noteq> index) k xs =
     (if int k \<le> index \<and> index < int k + int (length xs)
      then take (nat index - k) xs @ drop (Suc (nat index - k)) xs else xs)"
proof (induction xs arbitrary: k)
  case Nil
  then show ?case by simp
next
  case (Cons x xs)
  show ?case
  proof (cases "int k = index")
    case True
    then have "filter_index (\<lambda>i. int i \<noteq> index) (Suc k) xs = xs"
      using Cons.IH [of "Suc k"] by simp
    with True show ?thesis by auto
  next
    case False
    show ?thesis
    proof (cases "int k < index \<and> index < int k + int (length (x # xs))")
      case True
      then have eq: "nat index - k = Suc (nat index - Suc k)" by linarith
      from True have "int (Suc k) \<le> index \<and> index < int (Suc k) + int (length xs)" by simp
      then show ?thesis
        using Cons.IH [of "Suc k"] True False by (simp add: eq)
    next
      case outside: False
      then have "\<not> (int (Suc k) \<le> index \<and> index < int (Suc k) + int (length xs))"
        by auto
      then show ?thesis
        using Cons.IH [of "Suc k"] outside False by auto
    qed
  qed
qed

lemma removeImage_selectedImages:
  "selectedImages (removeImage index a) =
     (if 0 \<le> index \<and> index < int (length (selectedImages a))
      then take (nat index) (selectedImages a) @ drop (Suc (nat index)) (selectedImages a)
      else selectedImages a)"
  by (simp add: removeImage_def filter_index_remove)

text \<open>
  Claim C9. \<open>removeImage\<close> at a position of the list removes the element at that position
  and nothing else: the result is the elements before it followed by the elements after
  it, in their order; it is one shorter, the attachments before the position stay where
  they were and those after it move down by one. At any other index the list is unchanged.
\<close>

theorem removeImage_removes_exactly_index:
  "(0 \<le> index \<and> index < int (length (selectedImages a)) \<longrightarrow>
      selectedImages (removeImage index a) =
        take (nat index) (selectedImages a) @ drop (Suc (nat index)) (selectedImages a) \<and>
      length (selectedImages (removeImage index a)) = length (selectedImages a) - 1 \<and>
      (\<forall>i. i < nat index \<longrightarrow>
           selectedImages (removeImage index a) ! i = selectedImages a ! i) \<and>
      (\<forall>i. nat index \<le> i \<and> i < length (selectedImages a) - 1 \<longrightarrow>
           selectedImages (removeImage index a) ! i = selectedImages a ! Suc i)) \<and>
   (\<not> (0 \<le> index \<and> index < int (length (selectedImages a))) \<longrightarrow>
      selectedImages (removeImage index a) = selectedImages a)"
proof -
  let ?xs = "selectedImages a"
  show ?thesis
  proof (cases "0 \<le> index \<and> index < int (length ?xs)")
    case True
    then have n: "nat index < length ?xs" by linarith
    have eq: "selectedImages (removeImage index a) = take (nat index) ?xs @ drop (Suc (nat index)) ?xs"
      using True by (simp add: removeImage_selectedImages)
    have len: "length (take (nat index) ?xs @ drop (Suc (nat index)) ?xs) = length ?xs - 1"
      using n by simp
    have before: "\<forall>i. i < nat index \<longrightarrow> (take (nat index) ?xs @ drop (Suc (nat index)) ?xs) ! i = ?xs ! i"
      using n by (simp add: nth_append)
    have after: "\<forall>i. nat index \<le> i \<and> i < length ?xs - 1 \<longrightarrow>
                   (take (nat index) ?xs @ drop (Suc (nat index)) ?xs) ! i = ?xs ! Suc i"
      using n by (auto simp: nth_append min_def)
    from True eq len before after show ?thesis by simp
  next
    case False
    then have "selectedImages (removeImage index a) = ?xs"
      by (simp only: removeImage_selectedImages if_False)
    with False show ?thesis by blast
  qed
qed

theorem removeImage_removes_exactly_index_witness:
  "selectedImages
     (removeImage 1 (initialComponent\<lparr>selectedImages := [SAMPLE_PNG, SAMPLE_JPEG, SAMPLE_GIF]\<rparr>)) =
   [SAMPLE_PNG, SAMPLE_GIF]"
  using removeImage_removes_exactly_index
          [of 1 "initialComponent\<lparr>selectedImages := [SAMPLE_PNG, SAMPLE_JPEG, SAMPLE_GIF]\<rparr>"]
  by simp

section \<open>Diagram extraction\<close>





subsection \<open>The lazy group\<close>





subsection \<open>The delimiter pair\<close>




subsection \<open>Fences\<close>

























section \<open>The diagram URL is the specified encoding\<close>

lemma binary_loop_eq:
  "i \<le> length xs \<Longrightarrow> binary_loop xs i (length xs) acc = acc @ map unat (drop i xs)"
proof (induction "length xs - i" arbitrary: i acc)
  case 0
  then have "i = length xs" by simp
  then show ?case by (subst binary_loop.simps) simp
next
  case (Suc n)
  then have lt: "i < length xs" by simp
  from Suc(1) [of "Suc i" "acc @ [unat (xs ! i)]"] Suc(2) lt
  have "binary_loop xs (Suc i) (length xs) (acc @ [unat (xs ! i)]) =
          (acc @ [unat (xs ! i)]) @ map unat (drop (Suc i) xs)"
    by simp
  moreover have "drop i xs = xs ! i # drop (Suc i) xs"
    using lt by (simp add: Cons_nth_drop_Suc)
  ultimately show ?case
    using lt by (subst binary_loop.simps) simp
qed

lemma btoa_bytes: "btoa (map unat (z :: byte list)) = Inr (base64 (map unat z))"
proof -
  have "unat b \<le> 255" for b :: byte
    using unsigned_less [of b, where ?'a = nat] by simp
  then have "\<not> list_ex (\<lambda>c. 255 < c) (map unat z)"
    by (auto simp: list_ex_iff not_less)
  then show ?thesis by (simp add: btoa_def)
qed

lemma replace_all_url_safe: "replace_all 47 95 (replace_all 43 45 b) = map url_safe b"
  by (simp add: replace_all_def url_safe_def)

lemma encodeDiagram_eq:
  "encodeDiagram deflate code =
     (case deflate (TextEncoder_encode code) of
        Inl e \<Rightarrow> Inl e
      | Inr z \<Rightarrow> Inr (KROKI_SVG @ map url_safe (base64 (map unat z))))"
  by (simp add: encodeDiagram_def Let_def binary_loop_eq btoa_bytes replace_all_url_safe
      split: sum.splits)

lemma url_safe_chars: "43 \<notin> set (map url_safe b) \<and> 47 \<notin> set (map url_safe b)"
  by (auto simp: url_safe_def)

lemma base64_length: "length (base64 xs) = 4 * ((length xs + 2) div 3)"
proof (induction xs rule: base64.induct)
  case (4 a b c rest)
  have "(length (a # b # c # rest) + 2) div 3 = Suc ((length rest + 2) div 3)"
    by simp
  with 4 show ?case by simp
qed simp_all

lemma sample_bytes: "TextEncoder_encode (asc ''>>>'') = [62, 62, 62]"
  by (simp add: TextEncoder_encode_def asc_def scalar_def utf8_def)

lemma sample_base64: "base64 [62, 62, 62] = asc ''Pj4+''"
  by (simp add: b64char_def BASE64_ALPHABET_def asc_def)

text \<open>
  Claim C5. \<open>diagramUrl\<close> is a function of the diagram code alone, and it is the
  specification's \<open>toDiagramURL\<close>: empty for the empty code and whenever the codec throws;
  otherwise the viewer endpoint followed by the Base64 text of the compressed UTF-8 bytes
  with \<open>+\<close> replaced by \<open>-\<close> and \<open>/\<close> by \<open>_\<close>, so that neither \<open>+\<close> nor \<open>/\<close> is left in
  it, four characters for every three bytes. It never throws: \<open>btoa\<close> cannot fail on
  bytes, and a failure of the codec is caught.
\<close>

theorem diagramUrl_encoding:
  "diagramUrl deflate a = toDiagramURL_spec deflate (plantUmlCode a) \<and>
   (plantUmlCode a = [] \<longrightarrow> diagramUrl deflate a = []) \<and>
   (deflate (TextEncoder_encode (plantUmlCode a)) = Inl e \<longrightarrow> diagramUrl deflate a = []) \<and>
   (plantUmlCode a \<noteq> [] \<and> deflate (TextEncoder_encode (plantUmlCode a)) = Inr z \<longrightarrow>
      diagramUrl deflate a = KROKI_SVG @ map url_safe (base64 (map unat z)) \<and>
      43 \<notin> set (map url_safe (base64 (map unat z))) \<and>
      47 \<notin> set (map url_safe (base64 (map unat z))) \<and>
      length (map url_safe (base64 (map unat z))) = 4 * ((length z + 2) div 3)) \<and>
   (plantUmlCode a = plantUmlCode b \<longrightarrow> diagramUrl deflate a = diagramUrl deflate b)"
proof (intro conjI impI)
  show "diagramUrl deflate a = toDiagramURL_spec deflate (plantUmlCode a)"
    by (simp add: diagramUrl_def toDiagramURL_spec_def encodeDiagram_eq Let_def
        split: sum.splits)
  show "diagramUrl deflate a = []" if "plantUmlCode a = []"
    using that by (simp add: diagramUrl_def)
  show "diagramUrl deflate a = []" if "deflate (TextEncoder_encode (plantUmlCode a)) = Inl e"
    using that by (simp add: diagramUrl_def encodeDiagram_eq Let_def)
  show "diagramUrl deflate a = diagramUrl deflate b" if "plantUmlCode a = plantUmlCode b"
    using that by (simp add: diagramUrl_def)
next
  assume h: "plantUmlCode a \<noteq> [] \<and> deflate (TextEncoder_encode (plantUmlCode a)) = Inr z"
  then show "diagramUrl deflate a = KROKI_SVG @ map url_safe (base64 (map unat z))"
    by (simp add: diagramUrl_def encodeDiagram_eq Let_def)
  show "43 \<notin> set (map url_safe (base64 (map unat z)))"
    and "47 \<notin> set (map url_safe (base64 (map unat z)))"
    using url_safe_chars [of "base64 (map unat z)"] by blast+
  show "length (map url_safe (base64 (map unat z))) = 4 * ((length z + 2) div 3)"
    by (simp add: base64_length)
qed

theorem diagramUrl_encoding_witness:
  "diagramUrl SAMPLE_STORE (initialComponent\<lparr>plantUmlCode := asc ''>>>''\<rparr>) =
     asc ''https://kroki.io/plantuml/svg/Pj4-'' \<and>
   diagramUrl SAMPLE_BROKEN (initialComponent\<lparr>plantUmlCode := asc ''>>>''\<rparr>) = [] \<and>
   diagramUrl SAMPLE_STORE initialComponent = []"
proof -
  let ?a = "initialComponent\<lparr>plantUmlCode := asc ''>>>''\<rparr>"
  have ne: "plantUmlCode ?a \<noteq> []" by (simp add: asc_def)
  have ok: "SAMPLE_STORE (TextEncoder_encode (plantUmlCode ?a)) = Inr [62, 62, 62]"
    by (simp add: SAMPLE_STORE_def sample_bytes)
  have bad: "SAMPLE_BROKEN (TextEncoder_encode (plantUmlCode ?a)) = Inl DeflateFailed"
    by (simp add: SAMPLE_BROKEN_def)
  have empty: "plantUmlCode initialComponent = []"
    by (simp add: initialComponent_def)
  have "diagramUrl SAMPLE_STORE ?a =
          KROKI_SVG @ map url_safe (base64 (map unat [62, 62, 62 :: byte]))"
    using diagramUrl_encoding [of SAMPLE_STORE ?a DeflateFailed "[62, 62, 62]" ?a] ne ok
    by blast
  also have "map unat [62, 62, 62 :: byte] = [62, 62, 62]"
    by simp
  also have "KROKI_SVG @ map url_safe (base64 [62, 62, 62]) =
               asc ''https://kroki.io/plantuml/svg/Pj4-''"
    unfolding sample_base64 by (simp add: KROKI_SVG_def url_safe_def asc_def)
  finally have 1: "diagramUrl SAMPLE_STORE ?a = asc ''https://kroki.io/plantuml/svg/Pj4-''" .
  have 2: "diagramUrl SAMPLE_BROKEN ?a = []"
    using diagramUrl_encoding [of SAMPLE_BROKEN ?a DeflateFailed "[]" ?a] bad
    by blast
  have 3: "diagramUrl SAMPLE_STORE initialComponent = []"
    using diagramUrl_encoding [of SAMPLE_STORE initialComponent DeflateFailed "[]"
        initialComponent] empty
    by blast
  from 1 2 3 show ?thesis by blast
qed

end
